theory Spec2Isabelle
  imports Complex_Main
begin

unbundle bit_operations_syntax

section \<open>ChronyTop: telemetry parsing, scoring and diagnostics\<close>

text \<open>
  A shallow embedding of the core of \<^verbatim>\<open>src/python/chronytop.py\<close> (class \<^verbatim>\<open>TimeTop\<close>).
  Conventions of the embedding:
  \<^item> Python \<^verbatim>\<open>int\<close> is \<open>int\<close>; Python \<^verbatim>\<open>float\<close> is \<open>real\<close>, with float arithmetic
    taken without rounding, except in the network noise indicator, whose thresholds
    ordinary inputs reach: there every operation is rounded to the nearest double;
    \<^verbatim>\<open>float("inf")\<close> is a constructor of its own;
  \<^item> \<^verbatim>\<open>None\<close> is \<open>None\<close> of an option type;
  \<^item> text is \<open>string\<close>, restricted to ASCII;
  \<^item> the colour pair numbers 1, 2, 3 that the code attaches to every alert, indicator
    and score are the severities ok, warn and critical;
  \<^item> mutable attributes of the object are fields of an explicit state that each
    operation takes and returns; readings of \<^verbatim>\<open>time.monotonic()\<close> and the output of the
    external \<^verbatim>\<open>chronyc\<close> process are arguments.
\<close>

subsection \<open>Reach visualisation\<close>

text \<open>
  \<^verbatim>\<open>bits = [((reach >> i) & 1) for i in range(8)]\<close>, reversed when \<^verbatim>\<open>newest_left\<close>.
\<close>

definition reach_bits :: "int \<Rightarrow> bool \<Rightarrow> int list" where
  "reach_bits reach newest_left =
     (let bits = map (\<lambda>i. (drop_bit i reach) AND 1) [0..<8]
      in if newest_left then rev bits else bits)"

text \<open>
  The result of \<^verbatim>\<open>reach_dots\<close> is a Python string of the two code points U+25CF (filled
  dot) and U+25CB (hollow dot), or eight question marks; it is modelled as the list of
  its code points.
\<close>

definition dot_filled :: nat where "dot_filled = 0x25CF"
definition dot_hollow :: nat where "dot_hollow = 0x25CB"
definition question_mark :: nat where "question_mark = 0x3F"

definition reach_dots :: "int option \<Rightarrow> bool \<Rightarrow> nat list" where
  "reach_dots reach newest_left =
     (case reach of
        None \<Rightarrow> replicate 8 question_mark
      | Some r \<Rightarrow> map (\<lambda>b. if b \<noteq> 0 then dot_filled else dot_hollow) (reach_bits r newest_left))"

text \<open>
  Modelled from the spec: the re-encoding of a displayed register. The repository has no
  encoder; section 8 of the spec speaks of "decoding the newest-first bit order and
  re-encoding". The sequence is read positionally, its leftmost element the most
  significant bit, which is the order \<open>reach_bits r True\<close> produces.
\<close>

definition encode_bits :: "int list \<Rightarrow> int" where
  "encode_bits bs = foldl (\<lambda>acc b. 2 * acc + b) 0 bs"

definition decode_dots :: "nat list \<Rightarrow> int list" where
  "decode_dots ds = map (\<lambda>d. if d = dot_filled then 1 else 0) ds"

lemma reach_bit_div_mod: "(drop_bit i (r::int)) AND 1 = (r div 2 ^ i) mod 2"
  by (simp add: drop_bit_eq_div and_one_eq)

lemma bits_value:
  "foldr (\<lambda>b acc. 2 * acc + b) (map (\<lambda>i. (r::int) div 2 ^ i mod 2) [0..<n]) 0 = r mod 2 ^ n"
proof (induction n arbitrary: r)
  case 0
  show ?case by simp
next
  case (Suc n)
  have shift: "map (\<lambda>i. r div 2 ^ i mod 2) [0..<Suc n]
      = (r mod 2) # map (\<lambda>i. (r div 2) div 2 ^ i mod 2) [0..<n]"
    by (simp add: upt_conv_Cons map_Suc_upt [symmetric] zdiv_zmult2_eq del: upt_Suc)
  have "r mod 2 ^ Suc n = 2 * (r div 2 mod 2 ^ n) + r mod 2"
    by (simp add: zmod_zmult2_eq)
  with Suc.IH [of "r div 2"] show ?case
    by (simp only: shift list.map foldr.simps o_apply)
qed

lemma encode_rev: "encode_bits (rev bs) = foldr (\<lambda>b acc. 2 * acc + b) bs 0"
  by (simp add: encode_bits_def foldl_conv_foldr)

lemma reach_bits_True: "reach_bits r True = rev (map (\<lambda>i. r div 2 ^ i mod 2) [0..<8])"
  by (simp only: reach_bits_def Let_def reach_bit_div_mod if_True)

lemma encode_reach_bits: "encode_bits (reach_bits r True) = r mod 2 ^ 8"
  by (simp only: reach_bits_True encode_rev bits_value)

lemma bit_glyph_roundtrip:
  "(if (if ((b::int) mod 2) \<noteq> 0 then dot_filled else dot_hollow) = dot_filled then 1 else 0) = b mod 2"
proof (cases "b mod 2 = 0")
  case True
  then show ?thesis by (simp add: dot_filled_def dot_hollow_def)
next
  case False
  then have "b mod 2 = 1" by presburger
  then show ?thesis by simp
qed

lemma reach_bits_mod2:
  "reach_bits r nl =
     map (\<lambda>b. b mod 2)
       (if nl then rev (map (\<lambda>i. r div 2 ^ i) [0..<8]) else map (\<lambda>i. r div 2 ^ i) [0..<8])"
  by (simp add: reach_bits_def reach_bit_div_mod rev_map o_def del: upt_rec_numeral)

lemma decode_reach_dots: "decode_dots (reach_dots (Some r) nl) = reach_bits r nl"
proof -
  have "map (\<lambda>d. if d = dot_filled then 1 else 0)
          (map (\<lambda>b. if b \<noteq> 0 then dot_filled else dot_hollow)
             (map (\<lambda>b. b mod 2) ys))
        = map (\<lambda>b. b mod 2) ys" for ys :: "int list"
    by (induction ys) (simp_all only: list.map bit_glyph_roundtrip)
  then show ?thesis
    by (simp only: decode_dots_def reach_dots_def option.case reach_bits_mod2)
qed

theorem reach_roundtrip:
  assumes "0 \<le> r" and "r \<le> 255"
  shows "length (reach_bits r True) = 8
     \<and> encode_bits (reach_bits r True) = r
     \<and> encode_bits (decode_dots (reach_dots (Some r) True)) = r"
proof -
  have "r mod 2 ^ 8 = r"
    using assms by (intro mod_pos_pos_trivial) simp_all
  moreover have "length (reach_bits r True) = 8"
    by (simp add: reach_bits_True del: upt_rec_numeral)
  ultimately show ?thesis
    by (simp only: decode_reach_dots encode_reach_bits)
qed

lemma reach_bits_165: "reach_bits 165 True = [1, 0, 1, 0, 0, 1, 0, 1]"
  by (simp add: reach_bits_def reach_bit_div_mod upt_rec)

theorem reach_roundtrip_witness:
  "(0::int) \<le> 165 \<and> (165::int) \<le> 255
     \<and> reach_bits 165 True = [1, 0, 1, 0, 0, 1, 0, 1]
     \<and> encode_bits (reach_bits 165 True) = 165"
  using reach_roundtrip [of 165]
  by (simp add: reach_bits_165 encode_bits_def)

subsection \<open>Source records\<close>

text \<open>
  The dictionary that \<^verbatim>\<open>parse_sources_v\<close> builds for every data line, with the
  statistics fields that \<^verbatim>\<open>merge_sourcestats\<close> fills in. Every key is always present, so
  the dictionary is a record; a value that may be \<^verbatim>\<open>None\<close> is an option.
\<close>

record source =
  ms :: string
  name :: string
  key :: string
  stratum :: "int option"
  poll :: "int option"
  reach :: "int option"
  reach_octal :: string
  last_rx :: "int option"
  offset_s :: "real option"
  err_s :: "real option"
  ss_np :: "int option"
  ss_nr :: "int option"
  ss_span_s :: "real option"
  ss_freq_ppm :: "real option"
  ss_fskew_ppm :: "real option"
  ss_offset_s :: "real option"
  ss_stddev_s :: "real option"
  raw :: string

subsection \<open>Trust scoring\<close>

text \<open>
  \<^verbatim>\<open>source_trust\<close> is straight-line code over two local variables, \<^verbatim>\<open>score\<close> and
  \<^verbatim>\<open>flags\<close>. Each of its top-level \<^verbatim>\<open>if\<close> statements is one function below, from the
  pair before the statement to the pair after it, in the order of the source.
\<close>

type_synonym trust_acc = "real \<times> string list"






text \<open>The octal literal \<^verbatim>\<open>0o17\<close> is 15.\<close>

definition trust_reach :: "source \<Rightarrow> trust_acc \<Rightarrow> trust_acc" where
  "trust_reach src = (\<lambda>(score, flags).
     case reach src of
       None \<Rightarrow> (score - 10, flags @ [''NO_RCH''])
     | Some r \<Rightarrow>
         if r = 0 then (score - 45, flags @ [''RCH=0''])
         else if r < 15 then (score - 15, flags @ [''LOW_RCH''])
         else (score, flags))"









subsubsection \<open>The scoring table of the specification\<close>




















subsubsection \<open>Each statement against its row of the table\<close>


























text \<open>A source that chrony reports as unreachable, never reached and never heard.\<close>

definition unreachable_source :: source where
  "unreachable_source =
     \<lparr>ms = ''^?'', name = ''ntp1.example.net'', key = ''ntp1.example.net'', stratum = Some 0,
      poll = Some 6, reach = Some 0, reach_octal = ''000'', last_rx = None,
      offset_s = None, err_s = None, ss_np = None, ss_nr = None, ss_span_s = None,
      ss_freq_ppm = None, ss_fskew_ppm = None, ss_offset_s = None, ss_stddev_s = None,
      raw = ''^? ntp1.example.net 0 6 000 - +0ns[ +0ns] +/- 0ns''\<rparr>"



subsubsection \<open>Deductions and flags\<close>

text \<open>Two records that differ in the measured offset only: none, and five milliseconds.\<close>

definition steady_source :: source where
  "steady_source =
     \<lparr>ms = ''^-'', name = ''ntp2.example.net'', key = ''ntp2.example.net'', stratum = Some 5,
      poll = Some 6, reach = Some 255, reach_octal = ''377'', last_rx = Some 10,
      offset_s = Some 0, err_s = Some 0, ss_np = Some 8, ss_nr = Some 5, ss_span_s = Some 512,
      ss_freq_ppm = Some 0, ss_fskew_ppm = Some 0, ss_offset_s = Some 0, ss_stddev_s = Some 0,
      raw = ''^- ntp2.example.net 5 6 377 10 +0ns[ +0ns] +/- 0ns''\<rparr>"







subsection \<open>Health alerts\<close>

text \<open>
  A float that may be \<^verbatim>\<open>float("inf")\<close>: the value of \<^verbatim>\<open>chrony_age\<close>.
\<close>

datatype xreal = PosInf | Fin real

fun xreal_gt :: "xreal \<Rightarrow> real \<Rightarrow> bool" where
  "xreal_gt PosInf limit = True"
| "xreal_gt (Fin a) limit = (a > limit)"

text \<open>
  A message is the list of the pieces of the string: literal text, and for a replacement
  field \<^verbatim>\<open>{x:.nf}\<close> of an f-string the number of decimals and the value, in place of the
  digits Python prints. An alert is a message with its colour pair (3 critical, 2 warn,
  1 ok).
\<close>

datatype piece = Txt string | Num nat xreal

type_synonym message = "piece list"
type_synonym alert = "message \<times> nat"

definition TRACKING_STALE_S :: real where "TRACKING_STALE_S = 5"
definition SOURCES_STALE_S :: real where "SOURCES_STALE_S = 15"
definition SOURCESTATS_STALE_S :: real where "SOURCESTATS_STALE_S = 60"

text \<open>\<^verbatim>\<open>if cond: alerts.append(a)\<close>\<close>

definition append_if :: "bool \<Rightarrow> 'a \<Rightarrow> 'a list \<Rightarrow> 'a list" where
  "append_if cond a alerts = (if cond then alerts @ [a] else alerts)"

text \<open>\<^verbatim>\<open>a is not None and a > limit\<close>\<close>

definition stale :: "xreal option \<Rightarrow> real \<Rightarrow> bool" where
  "stale a limit = (case a of None \<Rightarrow> False | Some v \<Rightarrow> xreal_gt v limit)"

definition stale_alert :: "string \<Rightarrow> xreal option \<Rightarrow> nat \<Rightarrow> alert" where
  "stale_alert what a col =
     ([Txt (''CHRONYC STALE: '' @ what @ '' age '')] @ (case a of None \<Rightarrow> [] | Some v \<Rightarrow> [Num 1 v])
        @ [Txt ''s''], col)"

text \<open>The em dash of one message is outside ASCII; it is written as its UTF-8 bytes.\<close>

definition em_dash :: string where
  "em_dash = [CHR 0xE2, CHR 0x80, CHR 0x94]"

definition alert_daemon_down :: alert where
  "alert_daemon_down = ([Txt ''CHRONYD DOWN / NO DATA (never got valid chronyc output)''], 3)"
definition alert_no_sources :: alert where
  "alert_no_sources = ([Txt ''NO NTP SOURCES PARSED''], 3)"
definition alert_no_reachable :: alert where
  "alert_no_reachable = ([Txt ''NO REACHABLE NTP SOURCES (reach=0 across all)''], 3)"
definition alert_no_selected :: alert where
  "alert_no_selected =
     ([Txt (''NO SELECTED SOURCE ('' @ ''* missing) '' @ em_dash @ '' UNSYNCED'')], 3)"
definition alert_all_stale :: alert where
  "alert_all_stale = ([Txt ''ALL SOURCES STALE (LastRx very old)''], 3)"
definition alert_degraded :: alert where
  "alert_degraded = ([Txt ''DEGRADED: only one reachable source''], 2)"
definition alert_sync_ok :: alert where
  "alert_sync_ok = ([Txt ''CHRONY SYNC: OK''], 1)"

text \<open>The counters of the loop over the sources, and one iteration of the loop.\<close>

record tally =
  reachable :: nat
  selected :: nat
  combined :: nat
  unusable :: nat
  any_rx_recent :: bool

definition tally_source :: "source \<Rightarrow> tally \<Rightarrow> tally" where
  "tally_source s t =
     (let t = (if CHR ''*'' \<in> set (ms s) then t\<lparr>selected := selected t + 1\<rparr> else t);
          t = (if CHR ''+'' \<in> set (ms s) then t\<lparr>combined := combined t + 1\<rparr> else t);
          t = (if CHR ''?'' \<in> set (ms s) then t\<lparr>unusable := unusable t + 1\<rparr> else t);
          t = (case reach s of Some r \<Rightarrow> if r > 0 then t\<lparr>reachable := reachable t + 1\<rparr> else t
               | None \<Rightarrow> t);
          t = (case last_rx s of Some rx \<Rightarrow> if rx \<le> 256 then t\<lparr>any_rx_recent := True\<rparr> else t
               | None \<Rightarrow> t)
      in t)"

definition chrony_sync_health :: "source list \<Rightarrow> (string \<rightharpoonup> xreal) \<Rightarrow> alert list" where
  "chrony_sync_health sources ages =
     (let a_trk = ages ''tracking'';
          a_src = ages ''sources -v'';
          a_ss = ages ''sourcestats -v''
      in if a_trk = Some PosInf \<or> a_src = Some PosInf then [alert_daemon_down]
      else
        let alerts = [];
            alerts = append_if (stale a_trk TRACKING_STALE_S) (stale_alert ''tracking'' a_trk 3) alerts;
            alerts = append_if (stale a_src SOURCES_STALE_S) (stale_alert ''sources'' a_src 3) alerts;
            alerts = append_if (stale a_ss SOURCESTATS_STALE_S) (stale_alert ''sourcestats'' a_ss 2) alerts
        in if stale a_src SOURCES_STALE_S then alerts
        else if sources = [] then alerts @ [alert_no_sources]
        else
          let t = fold tally_source sources
                    \<lparr>reachable = 0, selected = 0, combined = 0, unusable = 0, any_rx_recent = False\<rparr>;
              alerts = append_if (reachable t = 0) alert_no_reachable alerts;
              alerts = append_if (selected t = 0) alert_no_selected alerts;
              alerts = append_if (\<not> any_rx_recent t) alert_all_stale alerts
          in if reachable t = 1 then alerts @ [alert_degraded]
             else if reachable t \<ge> 2 \<and> selected t \<ge> 1 \<and> combined t \<ge> 1 \<and> alerts = []
               then alerts @ [alert_sync_ok]
             else alerts)"

text \<open>
  The attributes of the object that \<^verbatim>\<open>health\<close> reads and writes. The histories are
  deques; \<^verbatim>\<open>h[-1]\<close> is the last element.
\<close>

record monitor =
  offset_history :: "real list"
  rms_history :: "real list"
  freq_history :: "real list"
  skew_history :: "real list"
  last_offset :: "real option"
  last_monotonic :: real

definition alert_clock_step :: alert where
  "alert_clock_step = ([Txt ''CLOCK STEP / LARGE OFFSET''], 3)"
definition alert_high_offset :: alert where
  "alert_high_offset = ([Txt ''HIGH OFFSET''], 2)"
definition alert_jitter :: alert where
  "alert_jitter = ([Txt ''JITTER (RMS HIGH)''], 2)"
definition alert_drift :: alert where
  "alert_drift = ([Txt ''DRIFT (FREQ HIGH)''], 3)"
definition alert_unstable :: alert where
  "alert_unstable = ([Txt ''UNSTABLE OSC (SKEW HIGH)''], 2)"
definition alert_time_jump :: alert where
  "alert_time_jump = ([Txt ''TIME JUMP (OFFSET DELTA)''], 3)"
definition alert_suspend :: alert where
  "alert_suspend = ([Txt ''SUSPEND/PAUSE DETECTED (MONOTONIC GAP)''], 3)"

text \<open>
  \<^verbatim>\<open>health(sources, ages)\<close>, with the reading \<open>now_m\<close> of \<^verbatim>\<open>time.monotonic()\<close>; the
  result is the alert list and the object after the call. The clock is read, and the two
  carried values are written, only when there is tracking history.
\<close>

definition health ::
  "monitor \<Rightarrow> source list option \<Rightarrow> (string \<rightharpoonup> xreal) option \<Rightarrow> real \<Rightarrow> alert list \<times> monitor" where
  "health self sources ages now_m =
     (let alerts = (case (sources, ages) of
                      (Some srcs, Some ags) \<Rightarrow> chrony_sync_health srcs ags
                    | _ \<Rightarrow> [])
      in if offset_history self = [] then (alerts, self)
      else
        let off_ms = \<bar>last (offset_history self)\<bar> * 1000;
            rms_ms = (if rms_history self \<noteq> [] then \<bar>last (rms_history self)\<bar> * 1000 else 0);
            freq_ppm = (if freq_history self \<noteq> [] then \<bar>last (freq_history self)\<bar> else 0);
            skew_ppm = (if skew_history self \<noteq> [] then \<bar>last (skew_history self)\<bar> else 0);
            alerts = (if off_ms > 50 then alerts @ [alert_clock_step]
                      else if off_ms > 10 then alerts @ [alert_high_offset]
                      else alerts);
            alerts = append_if (rms_ms > 10) alert_jitter alerts;
            alerts = append_if (freq_ppm > 100) alert_drift alerts;
            alerts = append_if (skew_ppm > 5) alert_unstable alerts;
            dt_m = now_m - last_monotonic self;
            self = self\<lparr>last_monotonic := now_m\<rparr>;
            alerts = (case last_offset self of
                        Some prev \<Rightarrow>
                          let delta = \<bar>last (offset_history self) - prev\<bar>;
                              alerts = append_if (delta > 0.250) alert_time_jump alerts;
                              alerts = append_if (dt_m > 15) alert_suspend alerts
                          in alerts
                      | None \<Rightarrow> alerts);
            self = self\<lparr>last_offset := Some (last (offset_history self))\<rparr>
        in (alerts, self))"

lemma in_append_if: "x \<in> set (append_if c a xs) \<longleftrightarrow> x \<in> set xs \<or> (c \<and> x = a)"
  by (auto simp: append_if_def)

lemma append_if_False: "append_if False a xs = xs"
  by (simp add: append_if_def)

lemma append_if_True: "append_if True a xs = xs @ [a]"
  by (simp add: append_if_def)

lemma reachable_fold:
  "reachable (fold tally_source srcs t) =
     reachable t + length (filter (\<lambda>s. case reach s of None \<Rightarrow> False | Some r \<Rightarrow> r > 0) srcs)"
  by (induction srcs arbitrary: t) (simp_all add: tally_source_def Let_def split: option.split)

lemma selected_fold:
  "selected (fold tally_source srcs t) =
     selected t + length (filter (\<lambda>s. CHR ''*'' \<in> set (ms s)) srcs)"
  by (induction srcs arbitrary: t) (simp_all add: tally_source_def Let_def split: option.split)

text \<open>The carried state of a first health check: one sample, no previous offset.\<close>

definition first_check :: monitor where
  "first_check =
     \<lparr>offset_history = [0], rms_history = [0], freq_history = [0], skew_history = [0],
      last_offset = None, last_monotonic = 0\<rparr>"

definition later_check :: monitor where
  "later_check = first_check\<lparr>last_offset := Some 0\<rparr>"

text \<open>
  Claim C3. When the three cache ages are finite and not above their staleness thresholds
  (5 s tracking, 15 s sources, 60 s sourcestats), an empty source list yields exactly one
  alert, the critical "no sources parsed"; and a non-empty source list in which no source
  has a reachability register above 0 and none has the selection marker yields the critical
  "no reachable sources" alert and the critical "no selected source" alert, two different
  alerts, as the first two of the result.
\<close>

theorem sync_health_hard_failures:
  assumes "ages ''tracking'' = Some (Fin a_trk)" and "a_trk \<le> 5"
    and "ages ''sources -v'' = Some (Fin a_src)" and "a_src \<le> 15"
    and "ages ''sourcestats -v'' = Some (Fin a_ss)" and "a_ss \<le> 60"
  shows "chrony_sync_health [] ages = [alert_no_sources]
     \<and> snd alert_no_sources = 3
     \<and> (sources \<noteq> []
          \<and> (\<forall>s \<in> set sources. case reach s of None \<Rightarrow> True | Some r \<Rightarrow> r \<le> 0)
          \<and> (\<forall>s \<in> set sources. CHR ''*'' \<notin> set (ms s))
        \<longrightarrow> alert_no_reachable \<in> set (chrony_sync_health sources ages)
          \<and> alert_no_selected \<in> set (chrony_sync_health sources ages)
          \<and> take 2 (chrony_sync_health sources ages) = [alert_no_reachable, alert_no_selected]
          \<and> alert_no_reachable \<noteq> alert_no_selected
          \<and> snd alert_no_reachable = 3 \<and> snd alert_no_selected = 3)"
proof -
  have fresh: "\<not> stale (ages ''tracking'') TRACKING_STALE_S"
    "\<not> stale (ages ''sources -v'') SOURCES_STALE_S"
    "\<not> stale (ages ''sourcestats -v'') SOURCESTATS_STALE_S"
    using assms
    by (simp_all add: stale_def TRACKING_STALE_S_def SOURCES_STALE_S_def SOURCESTATS_STALE_S_def)
  have finite: "ages ''tracking'' \<noteq> Some PosInf" "ages ''sources -v'' \<noteq> Some PosInf"
    using assms by simp_all
  have empty: "chrony_sync_health [] ages = [alert_no_sources]"
    by (simp add: chrony_sync_health_def Let_def fresh finite append_if_False)
  have hard: "take 2 (chrony_sync_health sources ages) = [alert_no_reachable, alert_no_selected]"
    if "sources \<noteq> []"
      and unreach: "\<forall>s \<in> set sources. case reach s of None \<Rightarrow> True | Some r \<Rightarrow> r \<le> 0"
      and unsel: "\<forall>s \<in> set sources. CHR ''*'' \<notin> set (ms s)"
  proof -
    have "filter (\<lambda>s. case reach s of None \<Rightarrow> False | Some r \<Rightarrow> r > 0) sources = []"
      using unreach by (auto simp: filter_empty_conv split: option.splits)
    then have r0: "reachable (fold tally_source sources t) = reachable t" for t
      by (simp add: reachable_fold)
    have "filter (\<lambda>s. CHR ''*'' \<in> set (ms s)) sources = []"
      using unsel by (simp add: filter_empty_conv)
    then have s0: "selected (fold tally_source sources t) = selected t" for t
      by (simp add: selected_fold)
    show ?thesis
      using \<open>sources \<noteq> []\<close>
      by (simp add: chrony_sync_health_def Let_def fresh finite append_if_False append_if_True
          r0 s0 append_if_def)
  qed
  have distinct: "alert_no_reachable \<noteq> alert_no_selected"
    by (simp add: alert_no_reachable_def alert_no_selected_def)
  have members: "alert_no_reachable \<in> set xs \<and> alert_no_selected \<in> set xs"
    if "take 2 xs = [alert_no_reachable, alert_no_selected]" for xs
  proof -
    have "set (take 2 xs) \<subseteq> set xs" by (rule set_take_subset)
    then show ?thesis unfolding that by simp
  qed
  show ?thesis
    using empty hard distinct members [of "chrony_sync_health sources ages"]
    by (simp add: alert_no_sources_def alert_no_reachable_def alert_no_selected_def)
qed

definition fresh_ages :: "string \<rightharpoonup> xreal" where
  "fresh_ages = [''tracking'' \<mapsto> Fin 1, ''sources -v'' \<mapsto> Fin 2, ''sourcestats -v'' \<mapsto> Fin 3]"

theorem sync_health_hard_failures_witness:
  "fresh_ages ''tracking'' = Some (Fin 1) \<and> (1::real) \<le> 5
   \<and> fresh_ages ''sources -v'' = Some (Fin 2) \<and> (2::real) \<le> 15
   \<and> fresh_ages ''sourcestats -v'' = Some (Fin 3) \<and> (3::real) \<le> 60
   \<and> [unreachable_source] \<noteq> []
   \<and> (case reach unreachable_source of None \<Rightarrow> True | Some r \<Rightarrow> r \<le> 0)
   \<and> CHR ''*'' \<notin> set (ms unreachable_source)
   \<and> chrony_sync_health [] fresh_ages = [alert_no_sources]
   \<and> take 2 (chrony_sync_health [unreachable_source] fresh_ages)
        = [alert_no_reachable, alert_no_selected]"
proof -
  have 1: "fresh_ages ''tracking'' = Some (Fin 1)"
    and 2: "fresh_ages ''sources -v'' = Some (Fin 2)"
    and 3: "fresh_ages ''sourcestats -v'' = Some (Fin 3)"
    by (simp_all add: fresh_ages_def)
  have src: "reach unreachable_source = Some 0" "ms unreachable_source = ''^?''"
    by (simp_all add: unreachable_source_def)
  show ?thesis
    using sync_health_hard_failures [OF 1 _ 2 _ 3, of "[unreachable_source]"] 1 2 3
    by (simp add: src)
qed

lemma suspend_not_sync: "alert_suspend \<notin> set (chrony_sync_health srcs ags)"
  by (simp add: chrony_sync_health_def Let_def in_append_if alert_suspend_def stale_alert_def
      alert_daemon_down_def alert_no_sources_def alert_no_reachable_def alert_no_selected_def
      alert_all_stale_def alert_degraded_def alert_sync_ok_def)

lemma suspend_not_sync_opt:
  "alert_suspend \<notin> set (case (sources, ages) of
       (Some srcs, Some ags) \<Rightarrow> chrony_sync_health srcs ags | _ \<Rightarrow> [])"
  by (simp add: suspend_not_sync split: option.split)

lemma suspend_not_offset:
  "alert_suspend \<in> set (if c1 then xs @ [alert_clock_step]
       else if c2 then xs @ [alert_high_offset] else xs) \<longleftrightarrow> alert_suspend \<in> set xs"
  by (simp add: alert_suspend_def alert_clock_step_def alert_high_offset_def)

lemma suspend_colour: "snd alert_suspend = 3"
  by (simp add: alert_suspend_def)

lemma suspend_not_others:
  "alert_suspend \<noteq> alert_jitter" "alert_suspend \<noteq> alert_drift"
  "alert_suspend \<noteq> alert_unstable" "alert_suspend \<noteq> alert_time_jump"
  by (simp_all add: alert_suspend_def alert_jitter_def alert_drift_def alert_unstable_def
      alert_time_jump_def)

text \<open>
  Claim C7, as stated, fails: with one tracking sample, no previous offset sample and 20
  seconds on the monotonic clock since the carried timestamp, the health evaluation returns
  no alert at all.
\<close>

theorem suspend_first_check_counterexample:
  "offset_history first_check \<noteq> []
   \<and> 20 - last_monotonic first_check > 15
   \<and> fst (health first_check None None 20) = []
   \<and> alert_suspend \<in> set (fst (health later_check None None 20))"
  by (simp add: health_def first_check_def later_check_def Let_def append_if_def)

text \<open>
  Claim C7, amended. Whenever at least one tracking sample exists, the oscillator-health
  evaluation emits the critical suspend/pause alert exactly when the monotonic time elapsed
  since the carried timestamp exceeds 15 seconds and a previous offset sample has been
  recorded; given such a sample, the alert does not depend on the offset-delta (time jump)
  check, nor on the sync-health alerts that precede it.
\<close>

theorem suspend_alert_iff:
  assumes "offset_history self \<noteq> []"
  shows "(alert_suspend \<in> set (fst (health self sources ages now_m))
          \<longleftrightarrow> now_m - last_monotonic self > 15 \<and> last_offset self \<noteq> None)
     \<and> snd alert_suspend = 3"
proof (cases "last_offset self")
  case None
  then show ?thesis
    using assms
    by (simp add: health_def Let_def in_append_if suspend_not_offset suspend_not_sync
        suspend_not_others suspend_colour split: option.split)
next
  case (Some prev)
  then show ?thesis
    using assms
    by (simp add: health_def Let_def in_append_if suspend_not_offset suspend_not_sync
        suspend_not_others suspend_colour split: option.split)
qed

theorem suspend_alert_iff_witness:
  "offset_history later_check \<noteq> []
   \<and> alert_suspend \<in> set (fst (health later_check None None 20))
   \<and> alert_suspend \<notin> set (fst (health later_check None None 10))"
proof -
  have 1: "offset_history later_check \<noteq> []"
    by (simp add: later_check_def first_check_def)
  show ?thesis
    using suspend_alert_iff [OF 1, of None None 20] suspend_alert_iff [OF 1, of None None 10] 1
    by (simp add: later_check_def first_check_def)
qed

subsection \<open>Double precision\<close>

text \<open>
  A Python \<^verbatim>\<open>float\<close> is an IEEE 754 double, and every arithmetic operation on floats gives
  the double nearest to the exact result, a tie going to the even mantissa. Where a claim
  turns on that rounding, an operation of the source is the exact operation on reals
  followed by \<open>fl\<close>, which rounds a real to the nearest double: \<open>scale\<close> brings the
  magnitude into \<open>[2 ^ 52, 2 ^ 53)\<close> by doubling or halving it, down to the exponent
  \<open>- 1074\<close> of the subnormal numbers and no further, \<open>round_half_even\<close> rounds the scaled
  magnitude to an integer, and the exponent is put back. The fuel of \<open>scale\<close> covers the
  whole exponent range of the doubles. Overflow is left out: \<open>fl\<close> is the result of the
  source's operation as long as the magnitude stays below \<open>2 ^ 1024\<close>, where the source
  would get \<^verbatim>\<open>inf\<close>.
\<close>

definition round_half_even :: "real \<Rightarrow> int" where
  "round_half_even m =
     (let n = \<lfloor>m\<rfloor>; r = m - of_int n
      in if r < 1 / 2 then n
         else if r > 1 / 2 then n + 1
         else if even n then n else n + 1)"

fun scale :: "nat \<Rightarrow> real \<Rightarrow> int \<Rightarrow> real \<times> int" where
  "scale 0 x e = (x, e)"
| "scale (Suc fuel) x e =
     (if x \<ge> 2 ^ 53 then scale fuel (x / 2) (e + 1)
      else if x < 2 ^ 52 \<and> e > - 1074 then scale fuel (2 * x) (e - 1)
      else (x, e))"

definition fl :: "real \<Rightarrow> real" where
  "fl x =
     (if x = 0 then 0
      else
        let (m, e) = scale 2200 \<bar>x\<bar> 0;
            n = round_half_even m;
            y = (if e \<ge> 0 then of_int n * 2 ^ nat e else of_int n / 2 ^ nat (- e))
        in if x < 0 then - y else y)"

lemma scale_numeral:
  "scale (numeral k) x e =
     (if x \<ge> 2 ^ 53 then scale (pred_numeral k) (x / 2) (e + 1)
      else if x < 2 ^ 52 \<and> e > - 1074 then scale (pred_numeral k) (2 * x) (e - 1)
      else (x, e))"
  by (simp add: numeral_eq_Suc)

lemmas fl_eval = fl_def scale_numeral round_half_even_def Let_def

subsection \<open>Network noise indicator\<close>

text \<open>
  \<^verbatim>\<open>statistics.median\<close> on floats: the middle element of the sorted data, or the mean of the
  two middle elements (a sum and a division, each rounded); on empty data it raises
  \<^verbatim>\<open>StatisticsError\<close>, which is \<open>None\<close> here.
\<close>

definition median :: "real list \<Rightarrow> real option" where
  "median data =
     (let data = sort data; n = length data
      in if n = 0 then None
         else if n mod 2 = 1 then Some (data ! (n div 2))
         else let i = n div 2 in Some (fl (fl (data ! (i - 1) + data ! i) / 2)))"

text \<open>
  \<^verbatim>\<open>network_noise_indicator\<close>, in double precision: the literals \<^verbatim>\<open>50e-6\<close> and \<^verbatim>\<open>0.20\<close> are
  the doubles nearest to them (the other literals are doubles as they stand), and the
  division, the two products and the difference are rounded. \<open>None\<close> is the exception of
  \<^verbatim>\<open>statistics.median\<close>. The local variable \<^verbatim>\<open>floor\<close> of the source is \<open>floor_sd\<close>.
\<close>

definition network_noise_indicator :: "source list \<Rightarrow> (message \<times> nat) option" where
  "network_noise_indicator sources =
     (case sources of
        [] \<Rightarrow> Some ([Txt ''Net noise: -''], 2)
      | first # _ \<Rightarrow>
          let sel = (case find (\<lambda>s. CHR ''*'' \<in> set (ms s)) sources of
                       Some s \<Rightarrow> s | None \<Rightarrow> first)
          in case ss_stddev_s sel of
               None \<Rightarrow> Some ([Txt ''Net noise: no sourcestats stddev for selected''], 2)
             | Some sel_sd \<Rightarrow>
                 let sds = List.map_filter ss_stddev_s sources
                 in if length sds < 2
                    then Some ([Txt ''Net noise: insufficient sources with stddev''], 2)
                    else case median sds of
                      None \<Rightarrow> None
                    | Some med \<Rightarrow>
                        let floor_sd = fl (50 / 1000000);
                            ratio = fl (sel_sd / max med floor_sd);
                            sel_ms = fl (sel_sd * 1000);
                            med_ms = fl (med * 1000);
                            abs_gap_ms = fl (sel_ms - med_ms);
                            (status, col) =
                              (if ratio \<ge> 3 \<and> abs_gap_ms \<ge> 1 / 2 then (''OUTLIER'', 3)
                               else if ratio \<ge> 2 \<and> abs_gap_ms \<ge> fl (1 / 5) then (''ELEVATED'', 2)
                               else (''OK'', 1))
                        in Some ([Txt ''Net noise: sel SD='', Num 3 (Fin sel_ms),
                                  Txt ''ms  median='', Num 3 (Fin med_ms),
                                  Txt ''ms  ratio='', Num 2 (Fin ratio),
                                  Txt ''  '', Txt status], col))"

subsubsection \<open>The classification of the specification\<close>

text \<open>
  Section 4.6 in its own words: the reference source, the two cases of insufficient data,
  the ratio against the floored median and the gap in milliseconds. \<open>noise_class_exact\<close>
  reads the ratio, the median and the gap as exact quantities of the stored values, which
  is the claim as it is stated; \<open>noise_class_spec\<close> takes them in double precision, each
  operation rounded as \<^verbatim>\<open>statistics.median\<close> and the expressions of the source round it.
\<close>

datatype noise_class = Insufficient | Outlier | Elevated | Quiet

definition reference_source :: "source list \<Rightarrow> source option" where
  "reference_source srcs =
     (case filter (\<lambda>s. CHR ''*'' \<in> set (ms s)) srcs of
        s # _ \<Rightarrow> Some s
      | [] \<Rightarrow> (case srcs of [] \<Rightarrow> None | s # _ \<Rightarrow> Some s))"

definition present_stddevs :: "source list \<Rightarrow> real list" where
  "present_stddevs srcs = map the (filter (\<lambda>v. v \<noteq> None) (map ss_stddev_s srcs))"

definition median_exact :: "real list \<Rightarrow> real option" where
  "median_exact data =
     (let data = sort data; n = length data
      in if n = 0 then None
         else if n mod 2 = 1 then Some (data ! (n div 2))
         else Some ((data ! (n div 2 - 1) + data ! (n div 2)) / 2))"

definition noise_class_exact :: "source list \<Rightarrow> noise_class" where
  "noise_class_exact srcs =
     (case reference_source srcs of
        None \<Rightarrow> Insufficient
      | Some ref \<Rightarrow>
          (case (ss_stddev_s ref, median_exact (present_stddevs srcs)) of
             (Some reference_sd, Some med) \<Rightarrow>
               if length (present_stddevs srcs) < 2 then Insufficient
               else
                 let ratio = reference_sd / max med (50 / 1000000);
                     gap_ms = (reference_sd - med) * 1000
                 in if ratio \<ge> 3 \<and> gap_ms \<ge> 1 / 2 then Outlier
                    else if ratio \<ge> 2 \<and> gap_ms \<ge> 1 / 5 then Elevated
                    else Quiet
           | _ \<Rightarrow> Insufficient))"

definition noise_class_spec :: "source list \<Rightarrow> noise_class" where
  "noise_class_spec srcs =
     (case reference_source srcs of
        None \<Rightarrow> Insufficient
      | Some ref \<Rightarrow>
          (case (ss_stddev_s ref, median (present_stddevs srcs)) of
             (Some reference_sd, Some med) \<Rightarrow>
               if length (present_stddevs srcs) < 2 then Insufficient
               else
                 let ratio = fl (reference_sd / max med (fl (50 / 1000000)));
                     gap_ms = fl (fl (reference_sd * 1000) - fl (med * 1000))
                 in if ratio \<ge> 3 \<and> gap_ms \<ge> 1 / 2 then Outlier
                    else if ratio \<ge> 2 \<and> gap_ms \<ge> fl (1 / 5) then Elevated
                    else Quiet
           | _ \<Rightarrow> Insufficient))"

text \<open>What the indicator shows for a class: the colour, and the status word that ends the text.\<close>

fun shows_class :: "noise_class \<Rightarrow> message \<times> nat \<Rightarrow> bool" where
  "shows_class Insufficient (text, col) =
     (col = 2 \<and> (text = [Txt ''Net noise: no sourcestats stddev for selected'']
                 \<or> text = [Txt ''Net noise: insufficient sources with stddev'']))"
| "shows_class Outlier (text, col) = (col = 3 \<and> length text = 8 \<and> last text = Txt ''OUTLIER'')"
| "shows_class Elevated (text, col) = (col = 2 \<and> length text = 8 \<and> last text = Txt ''ELEVATED'')"
| "shows_class Quiet (text, col) = (col = 1 \<and> length text = 8 \<and> last text = Txt ''OK'')"

text \<open>
  The standard deviations that the model stands for: doubles, small enough for no
  operation of the indicator to overflow.
\<close>

definition double_in_range :: "real \<Rightarrow> bool" where
  "double_in_range sd \<longleftrightarrow> fl sd = sd \<and> \<bar>sd\<bar> \<le> 10 ^ 300"

definition stddevs_in_range :: "source list \<Rightarrow> bool" where
  "stddevs_in_range srcs \<longleftrightarrow> list_all double_in_range (present_stddevs srcs)"

text \<open>
  A record with the standard deviation that the statistics parser stores for a whole
  number of microseconds: \<^verbatim>\<open>float(text) / 1_000_000.0\<close>. Then the two examples of section 8
  of the specification, and a reference of 350 microseconds next to two sources of 150.
\<close>

definition with_stddev_us :: "string \<Rightarrow> nat \<Rightarrow> source" where
  "with_stddev_us m us = steady_source\<lparr>ms := m, ss_stddev_s := Some (fl (real us / 1000000))\<rparr>"

definition noisy_reference :: "source list" where
  "noisy_reference =
     [with_stddev_us ''^+'' 1000, with_stddev_us ''^*'' 5000, with_stddev_us ''^+'' 1000,
      with_stddev_us ''^-'' 1000, with_stddev_us ''^-'' 1000]"

definition quiet_reference :: "source list" where
  "quiet_reference =
     [with_stddev_us ''^*'' 1200, with_stddev_us ''^+'' 1000, with_stddev_us ''^+'' 1000]"

definition boundary_reference :: "source list" where
  "boundary_reference =
     [with_stddev_us ''^*'' 350, with_stddev_us ''^+'' 150, with_stddev_us ''^+'' 150]"

lemma find_filter: "find P xs = (case filter P xs of [] \<Rightarrow> None | x # _ \<Rightarrow> Some x)"
  by (induction xs) simp_all

lemma map_filter_present: "List.map_filter ss_stddev_s srcs = present_stddevs srcs"
  by (induction srcs) (auto simp: present_stddevs_def List.map_filter_simps split: option.split)

lemma sort_Nil_iff: "sort (xs::real list) = [] \<longleftrightarrow> xs = []"
  using length_sort [of "\<lambda>x. x" xs] by (metis length_0_conv)

lemma median_None: "median data = None \<Longrightarrow> data = []"
  by (simp add: median_def Let_def sort_Nil_iff split: if_splits)

lemma median_Some: "data \<noteq> [] \<Longrightarrow> \<exists>m. median data = Some m"
  using median_None [of data] by (cases "median data") simp_all

lemma list_case_nonempty:
  "xs \<noteq> [] \<Longrightarrow> (case xs of [] \<Rightarrow> a | x # y \<Rightarrow> f x y) = f (hd xs) (tl xs)"
  by (cases xs) simp_all

lemma noise_indicator_refines:
  assumes "srcs \<noteq> []"
  shows "\<exists>r. network_noise_indicator srcs = Some r \<and> shows_class (noise_class_spec srcs) r"
proof -
  define sel where "sel = (case find (\<lambda>s. CHR ''*'' \<in> set (ms s)) srcs of
                       None \<Rightarrow> hd srcs | Some s \<Rightarrow> s)"
  have ref: "reference_source srcs = Some sel"
    using assms
    by (cases srcs) (simp_all add: reference_source_def sel_def find_filter split: list.split)
  show ?thesis
  proof (cases "ss_stddev_s sel")
    case None
    then show ?thesis
      using assms
      by (simp add: network_noise_indicator_def noise_class_spec_def list_case_nonempty
          sel_def [symmetric] ref Let_def)
  next
    case (Some sd)
    show ?thesis
    proof (cases "length (present_stddevs srcs) < 2")
      case True
      then show ?thesis
        using assms Some
        by (simp add: network_noise_indicator_def noise_class_spec_def list_case_nonempty
            sel_def [symmetric] ref Let_def map_filter_present split: option.split)
    next
      case False
      then have "present_stddevs srcs \<noteq> []" by auto
      then obtain med where med: "median (present_stddevs srcs) = Some med"
        using median_Some by blast
      define ratio where "ratio = fl (sd / max med (fl (50 / 1000000)))"
      define gap where "gap = fl (fl (sd * 1000) - fl (med * 1000))"
      have ind: "network_noise_indicator srcs =
         (let (status, col) =
                (if ratio \<ge> 3 \<and> gap \<ge> 1 / 2 then (''OUTLIER'', 3)
                 else if ratio \<ge> 2 \<and> gap \<ge> fl (1 / 5) then (''ELEVATED'', 2)
                 else (''OK'', 1))
          in Some ([Txt ''Net noise: sel SD='', Num 3 (Fin (fl (sd * 1000))),
                    Txt ''ms  median='', Num 3 (Fin (fl (med * 1000))),
                    Txt ''ms  ratio='', Num 2 (Fin ratio),
                    Txt ''  '', Txt status], col))"
        using assms Some False
        by (simp only: network_noise_indicator_def list_case_nonempty sel_def [symmetric] Let_def
            map_filter_present med option.case if_False simp_thms ratio_def gap_def)
      have spec: "noise_class_spec srcs =
         (if ratio \<ge> 3 \<and> gap \<ge> 1 / 2 then Outlier
          else if ratio \<ge> 2 \<and> gap \<ge> fl (1 / 5) then Elevated
          else Quiet)"
        using False
        by (simp only: noise_class_spec_def ref Some med option.case prod.case if_False simp_thms
            Let_def ratio_def gap_def)
      show ?thesis
        unfolding ind spec Let_def
        by (cases "3 \<le> ratio \<and> 1 / 2 \<le> gap"; cases "2 \<le> ratio \<and> fl (1 / 5) \<le> gap")
           simp_all
    qed
  qed
qed

subsubsection \<open>The examples\<close>

lemma fl_us:
  "fl (1000 / 1000000) = 1152921504606847 / 2 ^ 60"
  "fl (5000 / 1000000) = 5764607523034235 / 2 ^ 60"
  "fl (1200 / 1000000) = 5534023222112865 / 2 ^ 62"
  "fl (350 / 1000000) = 6456360425798343 / 2 ^ 64"
  "fl (150 / 1000000) = 5534023222112865 / 2 ^ 65"
  by (simp_all add: fl_eval)

lemma fl_literals:
  "fl (50 / 1000000) = 7378697629483821 / 2 ^ 67"
  "fl (1 / 5) = 3602879701896397 / 2 ^ 54"
  by (simp_all add: fl_eval)

lemmas noise_eval =
  network_noise_indicator_def with_stddev_us_def steady_source_def List.map_filter_simps
  median_def fl_eval

lemma noisy_reference_value:
  "network_noise_indicator noisy_reference =
     Some ([Txt ''Net noise: sel SD='', Num 3 (Fin 5), Txt ''ms  median='', Num 3 (Fin 1),
            Txt ''ms  ratio='', Num 2 (Fin 5), Txt ''  '', Txt ''OUTLIER''], 3)"
  by (simp add: noisy_reference_def noise_eval)

lemma quiet_reference_value:
  "network_noise_indicator quiet_reference =
     Some ([Txt ''Net noise: sel SD='', Num 3 (Fin (5404319552844595 / 2 ^ 52)),
            Txt ''ms  median='', Num 3 (Fin 1),
            Txt ''ms  ratio='', Num 2 (Fin (5404319552844595 / 2 ^ 52)),
            Txt ''  '', Txt ''OK''], 1)"
  by (simp add: quiet_reference_def noise_eval)

lemma boundary_reference_value:
  "network_noise_indicator boundary_reference =
     Some ([Txt ''Net noise: sel SD='', Num 3 (Fin (3152519739159347 / 2 ^ 53)),
            Txt ''ms  median='', Num 3 (Fin (5404319552844595 / 2 ^ 55)),
            Txt ''ms  ratio='', Num 2 (Fin (5254199565265579 / 2 ^ 51)),
            Txt ''  '', Txt ''OK''], 1)"
  by (simp add: boundary_reference_def noise_eval)

lemma boundary_reference_exact: "noise_class_exact boundary_reference = Elevated"
  by (simp add: noise_class_exact_def reference_source_def map_filter_present [symmetric]
      List.map_filter_simps boundary_reference_def with_stddev_us_def steady_source_def
      median_exact_def fl_eval)

lemma boundary_gap:
  "fl (fl (fl (350 / 1000000) * 1000) - fl (fl (150 / 1000000) * 1000)) < fl (1 / 5)"
  "1 / 5 \<le> (fl (350 / 1000000) - fl (150 / 1000000)) * 1000"
  by (simp_all add: fl_eval)

lemma reference_classes:
  "noise_class_spec noisy_reference = Outlier" "noise_class_spec quiet_reference = Quiet"
  by (simp_all add: noise_class_spec_def reference_source_def map_filter_present [symmetric]
      List.map_filter_simps noisy_reference_def quiet_reference_def with_stddev_us_def
      steady_source_def median_def fl_eval)

lemma quiet_reference_in_range: "stddevs_in_range quiet_reference"
  by (simp add: stddevs_in_range_def double_in_range_def map_filter_present [symmetric]
      List.map_filter_simps quiet_reference_def with_stddev_us_def steady_source_def fl_eval)

text \<open>
  Claim C5, as stated, fails on the thresholds. For a reference of 350 microseconds and two
  other sources of 150, the ratio is above 2 and the gap between the stored deviations is
  not below 0.20 ms, which makes the source ELEVATED; the code subtracts two rounded
  products, gets a gap one step below the double 0.20, and reports OK with colour 1.
\<close>

theorem noise_threshold_counterexample:
  "noise_class_exact boundary_reference = Elevated
   \<and> network_noise_indicator boundary_reference =
       Some ([Txt ''Net noise: sel SD='', Num 3 (Fin (3152519739159347 / 2 ^ 53)),
              Txt ''ms  median='', Num 3 (Fin (5404319552844595 / 2 ^ 55)),
              Txt ''ms  ratio='', Num 2 (Fin (5254199565265579 / 2 ^ 51)),
              Txt ''  '', Txt ''OK''], 1)"
  by (simp only: boundary_reference_exact boundary_reference_value simp_thms)

text \<open>
  Claim C5, amended. For every non-empty list of merged records, with standard deviations
  that are doubles of magnitude at most \<open>10 ^ 300\<close>, the indicator takes as reference the
  first record with the selection marker, else the first record; it reports insufficient
  data (warn) when the reference has no regression standard deviation or fewer than two
  records have one; otherwise it reports OUTLIER (critical) when the ratio is at least 3.0
  and the gap at least 0.50, else ELEVATED (warn) when the ratio is at least 2.0 and the
  gap at least 0.20, else OK, where the ratio \<^verbatim>\<open>sel_sd / max(med, 50e-6)\<close>, the gap
  \<^verbatim>\<open>sel_sd * 1000.0 - med * 1000.0\<close> and the median are the double precision values of the
  code, every operation rounded. A reference of 5 ms among four sources of 1 ms is an
  OUTLIER; a reference of 1.2 ms with two sources of 1 ms is OK.
\<close>

theorem noise_indicator_classification:
  "(srcs \<noteq> [] \<and> stddevs_in_range srcs \<longrightarrow>
      (\<exists>r. network_noise_indicator srcs = Some r \<and> shows_class (noise_class_spec srcs) r))
   \<and> noise_class_spec noisy_reference = Outlier
   \<and> (\<exists>text. network_noise_indicator noisy_reference = Some (text, 3)
          \<and> last text = Txt ''OUTLIER'')
   \<and> noise_class_spec quiet_reference = Quiet
   \<and> (\<exists>text. network_noise_indicator quiet_reference = Some (text, 1) \<and> last text = Txt ''OK'')"
  using noise_indicator_refines [of srcs]
  by (simp add: reference_classes noisy_reference_value quiet_reference_value)

theorem noise_indicator_classification_witness:
  "quiet_reference \<noteq> [] \<and> stddevs_in_range quiet_reference
   \<and> (\<exists>r. network_noise_indicator quiet_reference = Some r \<and> shows_class Quiet r)"
proof -
  have 1: "quiet_reference \<noteq> []" by (simp add: quiet_reference_def)
  show ?thesis
    using noise_indicator_classification [of quiet_reference] 1 quiet_reference_in_range
    by (simp add: reference_classes)
qed

subsection \<open>Text helpers\<close>

text \<open>
  \<^verbatim>\<open>str.isspace\<close> on ASCII: tab, line feed, vertical tab, form feed, carriage return, the
  four separators \<^verbatim>\<open>\x1c\<close> to \<^verbatim>\<open>\x1f\<close>, and the space. It is also the class \<^verbatim>\<open>\s\<close> of
  \<^verbatim>\<open>re\<close> and what \<^verbatim>\<open>str.split()\<close> and \<^verbatim>\<open>str.strip()\<close> take for whitespace.
\<close>

definition py_isspace :: "char \<Rightarrow> bool" where
  "py_isspace c \<longleftrightarrow>
     c \<in> set [CHR 0x09, CHR 0x0A, CHR 0x0B, CHR 0x0C, CHR 0x0D,
               CHR 0x1C, CHR 0x1D, CHR 0x1E, CHR 0x1F, CHR '' '']"

definition py_strip :: "string \<Rightarrow> string" where
  "py_strip s = rev (dropWhile py_isspace (rev (dropWhile py_isspace s)))"

text \<open>\<^verbatim>\<open>needle in text\<close>\<close>

fun contains :: "string \<Rightarrow> string \<Rightarrow> bool" where
  "contains needle [] = (needle = [])"
| "contains needle (c # cs) = (take (length needle) (c # cs) = needle \<or> contains needle cs)"

subsection \<open>Command cache\<close>

record cache_entry =
  out :: "string option"
  last_try :: real
  last_ok :: real
  interval :: real

type_synonym cache = "string \<rightharpoonup> cache_entry"

definition TRACKING_REFRESH_S :: real where "TRACKING_REFRESH_S = 1"
definition SOURCES_REFRESH_S :: real where "SOURCES_REFRESH_S = 5"
definition SOURCESTATS_REFRESH_S :: real where "SOURCESTATS_REFRESH_S = 20"

text \<open>\<^verbatim>\<open>self._chrony_cache\<close> as \<^verbatim>\<open>__init__\<close> leaves it.\<close>

definition initial_cache :: cache where
  "initial_cache =
     [''tracking'' \<mapsto> \<lparr>out = None, last_try = 0, last_ok = 0, interval = TRACKING_REFRESH_S\<rparr>,
      ''sources -v'' \<mapsto> \<lparr>out = None, last_try = 0, last_ok = 0, interval = SOURCES_REFRESH_S\<rparr>,
      ''sourcestats -v'' \<mapsto>
         \<lparr>out = None, last_try = 0, last_ok = 0, interval = SOURCESTATS_REFRESH_S\<rparr>]"

definition needles :: "string list" where
  "needles =
     [''Cannot talk to daemon'', ''506'', ''Could not open command socket'',
      ''Connection refused'', ''No such file or directory'', ''Operation not permitted'']"

definition chrony_out_is_error :: "string option \<Rightarrow> bool" where
  "chrony_out_is_error output =
     (case output of
        None \<Rightarrow> True
      | Some text \<Rightarrow>
          let s = py_strip text
          in if s = [] then True else list_ex (\<lambda>n. contains n s) needles)"

text \<open>
  \<^verbatim>\<open>chronyc_cached\<close>. \<open>now\<close> is the reading of \<^verbatim>\<open>time.monotonic()\<close> and \<open>fresh\<close> what
  \<^verbatim>\<open>run_chronyc\<close> returns when it is called (\<open>None\<close> after a timeout or an exception); the
  result is the cache after the call and the returned text. A command without an entry
  is run without caching.
\<close>

definition chronyc_cached ::
  "cache \<Rightarrow> string \<Rightarrow> real \<Rightarrow> string option \<Rightarrow> cache \<times> string option" where
  "chronyc_cached cache cmd now fresh =
     (case cache cmd of
        None \<Rightarrow> (cache, fresh)
      | Some entry \<Rightarrow>
          let due = (now - last_try entry \<ge> interval entry)
          in if due \<or> out entry = None then
               let entry = entry\<lparr>last_try := now\<rparr>;
                   entry = (case fresh of
                              Some text \<Rightarrow>
                                if py_strip text \<noteq> [] \<and> \<not> chrony_out_is_error fresh
                                then entry\<lparr>out := fresh, last_ok := now\<rparr>
                                else entry
                            | None \<Rightarrow> entry)
               in (cache(cmd \<mapsto> entry), out entry)
             else (cache, out entry))"

text \<open>\<^verbatim>\<open>chrony_age\<close>, with the reading of the clock.\<close>

definition chrony_age :: "cache \<Rightarrow> string \<Rightarrow> real \<Rightarrow> xreal option" where
  "chrony_age cache cmd now =
     (case cache cmd of
        None \<Rightarrow> None
      | Some entry \<Rightarrow>
          if last_ok entry \<le> 0 then Some PosInf
          else Some (Fin (max 0 (now - last_ok entry))))"

subsubsection \<open>Runs of the cache\<close>

text \<open>
  A call of \<^verbatim>\<open>chronyc_cached\<close>: the command, the clock reading, and the output the
  external process would give. A run is a list of calls, from the oldest.
\<close>

type_synonym call = "string \<times> real \<times> string option"

fun run_calls :: "cache \<Rightarrow> call list \<Rightarrow> cache" where
  "run_calls cache [] = cache"
| "run_calls cache ((cmd, now, fresh) # calls) =
     run_calls (fst (chronyc_cached cache cmd now fresh)) calls"

text \<open>
  A call succeeds when the query is issued (it is due, or nothing is cached) and its output
  is accepted: present, not blank and without an error signature.
\<close>

definition call_succeeds :: "cache \<Rightarrow> string \<Rightarrow> real \<Rightarrow> string option \<Rightarrow> bool" where
  "call_succeeds cache cmd now fresh =
     (case cache cmd of
        None \<Rightarrow> False
      | Some entry \<Rightarrow>
          (now - last_try entry \<ge> interval entry \<or> out entry = None)
          \<and> \<not> chrony_out_is_error fresh)"

text \<open>The clock readings of the successful calls of one query in a run, oldest first.\<close>

fun successes :: "cache \<Rightarrow> string \<Rightarrow> call list \<Rightarrow> real list" where
  "successes cache q [] = []"
| "successes cache q ((cmd, now, fresh) # calls) =
     (if cmd = q \<and> call_succeeds cache cmd now fresh then [now] else [])
     @ successes (fst (chronyc_cached cache cmd now fresh)) q calls"

definition known_queries :: "string set" where
  "known_queries = {''tracking'', ''sources -v'', ''sourcestats -v''}"

lemma error_when_blank: "py_strip text = [] \<Longrightarrow> chrony_out_is_error (Some text)"
  by (simp add: chrony_out_is_error_def)

lemma error_when_absent: "chrony_out_is_error None"
  by (simp add: chrony_out_is_error_def)

lemma chronyc_cached_error:
  assumes "cache cmd = Some entry" and "chrony_out_is_error fresh"
  shows "chronyc_cached cache cmd now fresh =
     (if now - last_try entry \<ge> interval entry \<or> out entry = None
      then (cache(cmd \<mapsto> entry\<lparr>last_try := now\<rparr>), out entry)
      else (cache, out entry))"
  using assms by (cases fresh) (simp_all add: chronyc_cached_def Let_def)

lemma chronyc_cached_step:
  assumes "cache q = Some e"
  shows "\<exists>e'. fst (chronyc_cached cache cmd now fresh) q = Some e'
     \<and> last_ok e' = (if cmd = q \<and> call_succeeds cache cmd now fresh then now else last_ok e)"
proof (cases "cmd = q")
  case True
  then show ?thesis
    using assms error_when_blank
    by (auto simp: chronyc_cached_def call_succeeds_def error_when_absent Let_def
        split: option.split)
next
  case False
  then show ?thesis
    using assms by (simp add: chronyc_cached_def Let_def split: option.split)
qed

lemma last_ok_run:
  assumes "cache q = Some e"
  shows "\<exists>e'. run_calls cache calls q = Some e'
     \<and> last_ok e' = (if successes cache q calls = [] then last_ok e
                     else last (successes cache q calls))"
  using assms
proof (induction calls arbitrary: cache e)
  case Nil
  then show ?case by simp
next
  case (Cons c calls)
  obtain cmd now fresh where c: "c = (cmd, now, fresh)" by (cases c) auto
  obtain e1 where e1: "fst (chronyc_cached cache cmd now fresh) q = Some e1"
    and ok1: "last_ok e1 = (if cmd = q \<and> call_succeeds cache cmd now fresh then now else last_ok e)"
    using chronyc_cached_step [of cache q e cmd now fresh] Cons.prems by blast
  obtain e' where e': "run_calls (fst (chronyc_cached cache cmd now fresh)) calls q = Some e'"
    and ok': "last_ok e' =
       (if successes (fst (chronyc_cached cache cmd now fresh)) q calls = [] then last_ok e1
        else last (successes (fst (chronyc_cached cache cmd now fresh)) q calls))"
    using Cons.IH [of "fst (chronyc_cached cache cmd now fresh)" e1] e1 by blast
  show ?case
    using e' ok' ok1 by (auto simp: c)
qed

lemma successes_times: "set (successes cache q calls) \<subseteq> (\<lambda>c. fst (snd c)) ` set calls"
proof (induction calls arbitrary: cache)
  case Nil
  show ?case by simp
next
  case (Cons c calls)
  obtain cmd now fresh where c: "c = (cmd, now, fresh)" by (cases c) auto
  show ?case
    using Cons.IH [of "fst (chronyc_cached cache cmd now fresh)"] by (auto simp: c)
qed

lemma initial_entry: "q \<in> known_queries \<Longrightarrow> \<exists>e. initial_cache q = Some e \<and> last_ok e = 0"
  by (auto simp: known_queries_def initial_cache_def)

text \<open>
  Claim C2. For every state of a cache entry and every fresh output that is absent, blank
  or carries an error signature, a call of the cached query leaves the stored output text
  and the last-success timestamp of the entry as they were and returns the stored text;
  the last-attempt timestamp becomes the current time when the refresh interval had elapsed
  or no output was cached, and otherwise the entry does not change at all. No other entry
  changes.
\<close>

theorem cached_error_keeps_output:
  assumes "cache cmd = Some entry" and "chrony_out_is_error fresh"
  shows "\<exists>entry'. fst (chronyc_cached cache cmd now fresh) cmd = Some entry'
     \<and> out entry' = out entry
     \<and> last_ok entry' = last_ok entry
     \<and> interval entry' = interval entry
     \<and> (now - last_try entry \<ge> interval entry \<or> out entry = None \<longrightarrow> last_try entry' = now)
     \<and> (\<not> (now - last_try entry \<ge> interval entry \<or> out entry = None) \<longrightarrow> entry' = entry)
     \<and> snd (chronyc_cached cache cmd now fresh) = out entry
     \<and> (\<forall>other. other \<noteq> cmd \<longrightarrow> fst (chronyc_cached cache cmd now fresh) other = cache other)"
  using assms chronyc_cached_error [where cache = cache and cmd = cmd and entry = entry
      and fresh = fresh and now = now]
  by auto

definition stale_tracking_cache :: cache where
  "stale_tracking_cache =
     initial_cache(''tracking'' \<mapsto>
       \<lparr>out = Some ''Reference ID : 0A000001'', last_try = 7, last_ok = 7,
        interval = TRACKING_REFRESH_S\<rparr>)"

lemma daemon_message_is_error: "chrony_out_is_error (Some ''506 Cannot talk to daemon'')"
  by (simp add: chrony_out_is_error_def py_strip_def py_isspace_def needles_def)

theorem cached_error_keeps_output_witness:
  "stale_tracking_cache ''tracking'' =
     Some \<lparr>out = Some ''Reference ID : 0A000001'', last_try = 7, last_ok = 7,
           interval = TRACKING_REFRESH_S\<rparr>
   \<and> chrony_out_is_error (Some ''506 Cannot talk to daemon'')
   \<and> fst (chronyc_cached stale_tracking_cache ''tracking'' 9 (Some ''506 Cannot talk to daemon''))
        ''tracking''
      = Some \<lparr>out = Some ''Reference ID : 0A000001'', last_try = 9, last_ok = 7,
              interval = TRACKING_REFRESH_S\<rparr>"
proof -
  have 1: "stale_tracking_cache ''tracking'' =
     Some \<lparr>out = Some ''Reference ID : 0A000001'', last_try = 7, last_ok = 7,
           interval = TRACKING_REFRESH_S\<rparr>"
    by (simp add: stale_tracking_cache_def)
  show ?thesis
    using cached_error_keeps_output [where cache = stale_tracking_cache and cmd = "''tracking''"
        and fresh = "Some ''506 Cannot talk to daemon''" and now = 9, OF 1 daemon_message_is_error]
      1 daemon_message_is_error
    by (auto simp: TRACKING_REFRESH_S_def)
qed

text \<open>
  Claim C9. For each of the three known query names the age operation returns infinity
  exactly when the last-success timestamp of the entry is unset (not above 0, as
  \<^verbatim>\<open>__init__\<close> leaves it), and otherwise the seconds since that timestamp, finite and never
  negative. Over a run of cache calls from the initial cache, with every reading of the
  monotonic clock positive, the timestamp is unset exactly when no call of that query has
  succeeded, and otherwise it is the time of the last successful call.
\<close>

theorem age_infinite_iff_never_succeeded:
  assumes "q \<in> known_queries" and "\<forall>c \<in> set calls. 0 < fst (snd c)"
  shows "\<exists>e. run_calls initial_cache calls q = Some e
     \<and> (last_ok e \<le> 0 \<longleftrightarrow> successes initial_cache q calls = [])
     \<and> (chrony_age (run_calls initial_cache calls) q now = Some PosInf
          \<longleftrightarrow> successes initial_cache q calls = [])
     \<and> (successes initial_cache q calls \<noteq> [] \<longrightarrow>
          chrony_age (run_calls initial_cache calls) q now
            = Some (Fin (max 0 (now - last (successes initial_cache q calls))))
          \<and> 0 \<le> max 0 (now - last (successes initial_cache q calls)))"
proof -
  obtain e0 where e0: "initial_cache q = Some e0" "last_ok e0 = 0"
    using initial_entry [OF assms(1)] by blast
  obtain e where e: "run_calls initial_cache calls q = Some e"
    and ok: "last_ok e = (if successes initial_cache q calls = [] then last_ok e0
                          else last (successes initial_cache q calls))"
    using last_ok_run [of initial_cache q e0 calls] e0(1) by blast
  have positive: "0 < last (successes initial_cache q calls)"
    if "successes initial_cache q calls \<noteq> []"
  proof -
    have "last (successes initial_cache q calls) \<in> set (successes initial_cache q calls)"
      using that by (rule last_in_set)
    then have "last (successes initial_cache q calls) \<in> (\<lambda>c. fst (snd c)) ` set calls"
      using successes_times [of initial_cache q calls] by blast
    then show ?thesis using assms(2) by auto
  qed
  show ?thesis
  proof (cases "successes initial_cache q calls = []")
    case True
    then show ?thesis
      using e ok e0(2) by (simp add: chrony_age_def)
  next
    case False
    then show ?thesis
      using e ok positive by (simp add: chrony_age_def)
  qed
qed

definition sample_run :: "call list" where
  "sample_run =
     [(''tracking'', 3, Some ''506 Cannot talk to daemon''),
      (''tracking'', 5, Some ''Reference ID : 0A000001''),
      (''sources -v'', 5, None),
      (''tracking'', 8, None)]"

lemma plain_output_accepted: "\<not> chrony_out_is_error (Some ''Reference ID : 0A000001'')"
  by (simp add: chrony_out_is_error_def py_strip_def py_isspace_def needles_def)

lemma sample_run_successes:
  "successes initial_cache ''tracking'' sample_run = [5]"
  "successes initial_cache ''sources -v'' sample_run = []"
  by (simp_all add: sample_run_def initial_cache_def chronyc_cached_def call_succeeds_def
      daemon_message_is_error plain_output_accepted error_when_absent Let_def
      TRACKING_REFRESH_S_def SOURCES_REFRESH_S_def SOURCESTATS_REFRESH_S_def)

theorem age_infinite_iff_never_succeeded_witness:
  "''tracking'' \<in> known_queries \<and> ''sources -v'' \<in> known_queries
   \<and> list_all (\<lambda>c. 0 < fst (snd c)) sample_run
   \<and> chrony_age (run_calls initial_cache sample_run) ''tracking'' 9 = Some (Fin 4)
   \<and> chrony_age (run_calls initial_cache sample_run) ''sources -v'' 9 = Some PosInf"
proof -
  have 1: "''tracking'' \<in> known_queries" and 2: "''sources -v'' \<in> known_queries"
    by (simp_all add: known_queries_def)
  have 3: "\<forall>c \<in> set sample_run. 0 < fst (snd c)"
    by (simp add: sample_run_def)
  show ?thesis
    using age_infinite_iff_never_succeeded [OF 1 3, of 9]
      age_infinite_iff_never_succeeded [OF 2 3, of 9] 1 2 3
    by (auto simp: sample_run_successes list_all_iff)
qed

subsection \<open>Regular expressions and conversions of the parsers\<close>

text \<open>
  The fragment of Python's \<^verbatim>\<open>re\<close> that the parsers use, as a backtracking matcher. A
  character class with a greedy repetition count is one constructor: \<open>Chars p lo hi\<close> takes
  between \<open>lo\<close> and \<open>hi\<close> characters of class \<open>p\<close> (\<open>hi = None\<close>: unbounded), the longest
  first. \<open>Eol\<close> is \<^verbatim>\<open>$\<close>: the end of the text, or the position before a final line feed.
  \<open>rx_run\<close> lists the ways a pattern matches a prefix of the text, each as the text that is
  left and the groups captured so far, in the order in which \<^verbatim>\<open>re\<close> tries them; the first
  element is the match \<^verbatim>\<open>re\<close> reports.
\<close>

datatype rx =
    Lit string
  | Chars "char \<Rightarrow> bool" nat "nat option"
  | Eol
  | Seq rx rx
  | Alt rx rx
  | Opt rx
  | Grp nat rx

type_synonym groups = "(nat \<times> string) list"

fun rx_run :: "rx \<Rightarrow> string \<Rightarrow> groups \<Rightarrow> (string \<times> groups) list" where
  "rx_run (Lit w) s g = (if take (length w) s = w then [(drop (length w) s, g)] else [])"
| "rx_run (Chars p lo hi) s g =
     (let n = length (takeWhile p s);
          m = (case hi of None \<Rightarrow> n | Some h \<Rightarrow> min n h)
      in map (\<lambda>k. (drop k s, g)) (rev [lo..<Suc m]))"
| "rx_run Eol s g = (if s = [] \<or> s = [CHR 0x0A] then [(s, g)] else [])"
| "rx_run (Seq a b) s g = concat (map (\<lambda>(s', g'). rx_run b s' g') (rx_run a s g))"
| "rx_run (Alt a b) s g = rx_run a s g @ rx_run b s g"
| "rx_run (Opt a) s g = rx_run a s g @ [(s, g)]"
| "rx_run (Grp i a) s g =
     map (\<lambda>(s', g'). (s', (i, take (length s - length s') s) # g')) (rx_run a s g)"

text \<open>\<^verbatim>\<open>re.match\<close>: at the start of the text only. \<^verbatim>\<open>re.search\<close>: at the leftmost position.\<close>

definition re_match :: "rx \<Rightarrow> string \<Rightarrow> groups option" where
  "re_match r s = (case rx_run r s [] of [] \<Rightarrow> None | (_, g) # _ \<Rightarrow> Some g)"

fun re_search :: "rx \<Rightarrow> string \<Rightarrow> groups option" where
  "re_search r [] = re_match r []"
| "re_search r (c # cs) =
     (case re_match r (c # cs) of Some g \<Rightarrow> Some g | None \<Rightarrow> re_search r cs)"

text \<open>\<^verbatim>\<open>m.group(i)\<close>; \<open>None\<close> for a group that took no part in the match.\<close>

definition group :: "groups \<Rightarrow> nat \<Rightarrow> string option" where
  "group g i = map_of g i"

fun seqs :: "rx list \<Rightarrow> rx" where
  "seqs [] = Lit []"
| "seqs [r] = r"
| "seqs (r # rs) = Seq r (seqs rs)"

definition is_digit :: "char \<Rightarrow> bool" where
  "is_digit c \<longleftrightarrow> c \<in> set ''0123456789''"

definition is_octal_digit :: "char \<Rightarrow> bool" where
  "is_octal_digit c \<longleftrightarrow> c \<in> set ''01234567''"

definition digit_val :: "char \<Rightarrow> nat" where
  "digit_val c = of_char c - 48"

definition digits_val :: "nat \<Rightarrow> string \<Rightarrow> nat" where
  "digits_val base ds = foldl (\<lambda>acc c. base * acc + digit_val c) 0 ds"

datatype py_error = ValueError | TypeError | AttributeError

text \<open>
  \<^verbatim>\<open>float(text)\<close> on the texts the parsers pass to it, which the patterns restrict to
  signs, digits and points: an optional sign, then digits with at most one point and at
  least one digit, possibly between blanks. \<open>None\<close> is \<^verbatim>\<open>ValueError\<close>. (Exponents,
  underscores, \<^verbatim>\<open>inf\<close> and \<^verbatim>\<open>nan\<close> need characters outside those patterns.)
\<close>

definition decimal_magnitude :: "string \<Rightarrow> real option" where
  "decimal_magnitude body =
     (let whole = takeWhile is_digit body;
          rest = dropWhile is_digit body
      in case rest of
           [] \<Rightarrow> if whole = [] then None else Some (real (digits_val 10 whole))
         | c # fraction \<Rightarrow>
             if c = CHR ''.'' \<and> list_all is_digit fraction \<and> (whole \<noteq> [] \<or> fraction \<noteq> [])
             then Some (real (digits_val 10 whole)
                        + real (digits_val 10 fraction) / 10 ^ length fraction)
             else None)"

definition py_float :: "string \<Rightarrow> real option" where
  "py_float text =
     (let s = py_strip text
      in case s of
           [] \<Rightarrow> None
         | c # cs \<Rightarrow>
             if c = CHR ''-'' then map_option uminus (decimal_magnitude cs)
             else if c = CHR ''+'' then decimal_magnitude cs
             else decimal_magnitude s)"

text \<open>
  \<^verbatim>\<open>int(text)\<close>: an optional sign and decimal digits, single underscores allowed between
  digits, possibly between blanks. \<open>None\<close> is \<^verbatim>\<open>ValueError\<close>. (The limit on the number of
  digits of recent Python versions is left out.)
\<close>

fun split_on :: "char \<Rightarrow> string \<Rightarrow> string \<Rightarrow> string list" where
  "split_on sep cur [] = [rev cur]"
| "split_on sep cur (c # cs) =
     (if c = sep then rev cur # split_on sep [] cs else split_on sep (c # cur) cs)"

definition py_int :: "string \<Rightarrow> int option" where
  "py_int text =
     (let s = py_strip text;
          (negative, body) =
            (case s of
               [] \<Rightarrow> (False, [])
             | c # cs \<Rightarrow> if c = CHR ''-'' then (True, cs)
                         else if c = CHR ''+'' then (False, cs) else (False, s));
          runs = split_on CHR ''_'' [] body
      in if list_all (\<lambda>r. r \<noteq> [] \<and> list_all is_digit r) runs
         then Some (if negative then - int (digits_val 10 (concat runs))
                    else int (digits_val 10 (concat runs)))
         else None)"

text \<open>
  \<^verbatim>\<open>int(text, 8)\<close> on a text of octal digits, possibly between blanks, which is all that
  \<^verbatim>\<open>parse_sources_v\<close> passes to it; \<open>None\<close> is \<^verbatim>\<open>ValueError\<close>.
\<close>

definition py_int_octal :: "string \<Rightarrow> int option" where
  "py_int_octal text =
     (let s = py_strip text
      in if s \<noteq> [] \<and> list_all is_octal_digit s then Some (int (digits_val 8 s)) else None)"

text \<open>\<^verbatim>\<open>str.splitlines()\<close> on ASCII: the line boundaries, and \<^verbatim>\<open>\r\n\<close> as one boundary.\<close>

definition is_linebreak :: "char \<Rightarrow> bool" where
  "is_linebreak c \<longleftrightarrow>
     c \<in> set [CHR 0x0A, CHR 0x0B, CHR 0x0C, CHR 0x0D, CHR 0x1C, CHR 0x1D, CHR 0x1E]"

fun splitlines_from :: "string \<Rightarrow> string \<Rightarrow> string list" where
  "splitlines_from cur [] = (if cur = [] then [] else [rev cur])"
| "splitlines_from cur [c] = (if is_linebreak c then [rev cur] else [rev (c # cur)])"
| "splitlines_from cur (c # d # cs) =
     (if c = CHR 0x0D \<and> d = CHR 0x0A then rev cur # splitlines_from [] cs
      else if is_linebreak c then rev cur # splitlines_from [] (d # cs)
      else splitlines_from (c # cur) (d # cs))"

definition splitlines :: "string \<Rightarrow> string list" where
  "splitlines s = splitlines_from [] s"

text \<open>\<^verbatim>\<open>str.split()\<close>: the maximal runs of characters that are not whitespace.\<close>

fun split_from :: "string \<Rightarrow> string \<Rightarrow> string list" where
  "split_from cur [] = (if cur = [] then [] else [rev cur])"
| "split_from cur (c # cs) =
     (if py_isspace c then (if cur = [] then split_from [] cs else rev cur # split_from [] cs)
      else split_from (c # cur) cs)"

definition py_split :: "string \<Rightarrow> string list" where
  "py_split s = split_from [] s"

text \<open>\<^verbatim>\<open>" ".join(parts)\<close>\<close>

fun join_spaces :: "string list \<Rightarrow> string" where
  "join_spaces [] = []"
| "join_spaces [p] = p"
| "join_spaces (p # ps) = p @ '' '' @ join_spaces ps"

text \<open>\<^verbatim>\<open>text.startswith(prefix)\<close>\<close>

definition startswith :: "string \<Rightarrow> string \<Rightarrow> bool" where
  "startswith text prefix \<longleftrightarrow> take (length prefix) text = prefix"

subsection \<open>Tracking parser\<close>

record tracking =
  offset :: real
  rms :: real
  freq :: real
  skew :: real

definition rx_spaces :: rx where
  "rx_spaces = Chars py_isspace 1 None"

text \<open>The class \<^verbatim>\<open>[-\d.]+\<close>\<close>

definition rx_number :: rx where
  "rx_number = Chars (\<lambda>c. c = CHR ''-'' \<or> is_digit c \<or> c = CHR ''.'') 1 None"

text \<open>\<^verbatim>\<open>System time\s+:\s+([-\d.]+)\s+seconds\s+(slow|fast)\<close>\<close>

definition rx_system_time :: rx where
  "rx_system_time =
     seqs [Lit ''System time'', rx_spaces, Lit '':'', rx_spaces, Grp 1 rx_number, rx_spaces,
           Lit ''seconds'', rx_spaces, Grp 2 (Alt (Lit ''slow'') (Lit ''fast''))]"

text \<open>\<^verbatim>\<open>label\s+:\s+([-\d.]+)\<close> for the labels \<^verbatim>\<open>RMS offset\<close>, \<^verbatim>\<open>Frequency\<close> and \<^verbatim>\<open>Skew\<close>.\<close>

definition rx_labelled :: "string \<Rightarrow> rx" where
  "rx_labelled label = seqs [Lit label, rx_spaces, Lit '':'', rx_spaces, Grp 1 rx_number]"

text \<open>\<^verbatim>\<open>float(m.group(i))\<close>; a group that took no part is \<^verbatim>\<open>float(None)\<close>, a \<^verbatim>\<open>TypeError\<close>.\<close>

definition float_group :: "groups \<Rightarrow> nat \<Rightarrow> py_error + real" where
  "float_group g i =
     (case group g i of
        None \<Rightarrow> Inl TypeError
      | Some text \<Rightarrow> (case py_float text of None \<Rightarrow> Inl ValueError | Some v \<Rightarrow> Inr v))"

definition search_float :: "string \<Rightarrow> rx \<Rightarrow> py_error + real option" where
  "search_float output pattern =
     (case re_search pattern output of
        None \<Rightarrow> Inr None
      | Some m \<Rightarrow> (case float_group m 1 of Inl e \<Rightarrow> Inl e | Inr v \<Rightarrow> Inr (Some v)))"

text \<open>
  \<^verbatim>\<open>parse_tracking\<close>. The result is the exception that escapes, or the returned value:
  \<open>None\<close>, or the dictionary with its four keys. The conversions run in the order of the
  source, and the first exception ends the call.
\<close>

definition or_zero :: "real option \<Rightarrow> real" where
  "or_zero v = (case v of None \<Rightarrow> 0 | Some x \<Rightarrow> x)"

definition parse_tracking :: "string \<Rightarrow> py_error + tracking option" where
  "parse_tracking output =
     (if output = [] then Inr None
      else
        case (case re_search rx_system_time output of
                None \<Rightarrow> Inr None
              | Some m \<Rightarrow>
                  (case float_group m 1 of
                     Inl e \<Rightarrow> Inl e
                   | Inr v \<Rightarrow> Inr (Some (if group m 2 = Some ''fast'' then v else - v)))) of
          Inl e \<Rightarrow> Inl e
        | Inr data_offset \<Rightarrow>
        case search_float output (rx_labelled ''RMS offset'') of
          Inl e \<Rightarrow> Inl e
        | Inr data_rms \<Rightarrow>
        case search_float output (rx_labelled ''Frequency'') of
          Inl e \<Rightarrow> Inl e
        | Inr data_freq \<Rightarrow>
        case search_float output (rx_labelled ''Skew'') of
          Inl e \<Rightarrow> Inl e
        | Inr data_skew \<Rightarrow>
            Inr (Some \<lparr>offset = or_zero data_offset, rms = or_zero data_rms,
                       freq = or_zero data_freq, skew = or_zero data_skew\<rparr>))"

subsection \<open>Sources parser\<close>

text \<open>\<^verbatim>\<open>str.lower()\<close> on ASCII.\<close>

definition py_lower :: "string \<Rightarrow> string" where
  "py_lower s =
     map (\<lambda>c. if 65 \<le> (of_char c :: nat) \<and> (of_char c :: nat) \<le> 90
               then char_of (of_char c + 32 :: nat) else c) s"

definition to_seconds :: "real \<Rightarrow> string \<Rightarrow> real" where
  "to_seconds v unit_name =
     (let u = py_lower unit_name
      in if u = ''s'' then v
         else if u = ''ms'' then v / 1000
         else if u = ''us'' then v / 1000000
         else if u = ''ns'' then v / 1000000000
         else v)"

text \<open>\<^verbatim>\<open>name.rstrip(">")\<close>, and the empty string for an empty name.\<close>

definition normalize_name :: "string \<Rightarrow> string" where
  "normalize_name n = (if n = [] then [] else rev (dropWhile (\<lambda>c. c = CHR ''>'') (rev n)))"

text \<open>\<^verbatim>\<open>^[\^\=\#\?\~\-\+]{1,2}[\*\+\-\?x]?\s\<close>\<close>

definition rx_data_line :: rx where
  "rx_data_line =
     seqs [Chars (\<lambda>c. c \<in> set ''^=#?~-+'') 1 (Some 2),
           Chars (\<lambda>c. c \<in> set ''*+-?x'') 0 (Some 1),
           Chars py_isspace 1 (Some 1)]"

text \<open>\<^verbatim>\<open>^[0-7]+$\<close>\<close>

definition rx_octal :: rx where
  "rx_octal = seqs [Chars is_octal_digit 1 None, Eol]"

text \<open>\<^verbatim>\<open>([+\-]?\d+(?:\.\d+)?)(ns|us|ms|s)\<close>, the common part of the two patterns of a line's rest.\<close>

definition rx_magnitude :: rx where
  "rx_magnitude =
     seqs [Grp 1 (seqs [Chars (\<lambda>c. c \<in> set ''+-'') 0 (Some 1), Chars is_digit 1 None,
                        Opt (seqs [Lit ''.'', Chars is_digit 1 None])]),
           Grp 2 (Alt (Lit ''ns'') (Alt (Lit ''us'') (Alt (Lit ''ms'') (Lit ''s''))))]"

text \<open>\<^verbatim>\<open>([+\-]?\d+(?:\.\d+)?)(ns|us|ms|s)\[\<close>\<close>

definition rx_offset :: rx where
  "rx_offset = seqs [rx_magnitude, Lit ''['']"

text \<open>\<^verbatim>\<open>\+\/-\s*([+\-]?\d+(?:\.\d+)?)(ns|us|ms|s)\<close>\<close>

definition rx_err :: rx where
  "rx_err = seqs [Lit ''+/-'', Chars py_isspace 0 None, rx_magnitude]"

text \<open>
  \<^verbatim>\<open>self._to_seconds(float(m.group(1)), m.group(2))\<close> after a search, \<open>None\<close> without a match.
\<close>

definition search_seconds :: "rx \<Rightarrow> string \<Rightarrow> py_error + real option" where
  "search_seconds pattern text =
     (case re_search pattern text of
        None \<Rightarrow> Inr None
      | Some m \<Rightarrow>
          (case float_group m 1 of
             Inl e \<Rightarrow> Inl e
           | Inr v \<Rightarrow>
               (case group m 2 of
                  None \<Rightarrow> Inl AttributeError
                | Some u \<Rightarrow> Inr (Some (to_seconds v u)))))"

text \<open>One iteration of the first loop of \<^verbatim>\<open>parse_sources_v\<close>, on \<^verbatim>\<open>data_lines\<close>.\<close>

definition keep_line :: "string list \<Rightarrow> string \<Rightarrow> string list" where
  "keep_line data_lines line =
     (if startswith line ''===='' then []
      else if py_strip line = [] then data_lines
      else if startswith line ''MS '' \<or> startswith line ''Name/IP'' then data_lines
      else if re_match rx_data_line line \<noteq> None then data_lines @ [line]
      else data_lines)"

text \<open>
  The body of the second loop: \<open>Inr None\<close> for a line with fewer than six parts, which
  is skipped. A conversion inside \<^verbatim>\<open>try\<close> gives \<open>None\<close> where it raises.
\<close>

definition parse_source_line :: "string \<Rightarrow> py_error + source option" where
  "parse_source_line line =
     (let parts = py_split line
      in if length parts < 6 then Inr None
         else
           let reach_raw = parts ! 4;
               rest = join_spaces (drop 6 parts)
           in case search_seconds rx_offset rest of
                Inl e \<Rightarrow> Inl e
              | Inr offset_value \<Rightarrow>
              case search_seconds rx_err rest of
                Inl e \<Rightarrow> Inl e
              | Inr err_value \<Rightarrow>
                  Inr (Some
                    \<lparr>ms = parts ! 0,
                     name = parts ! 1,
                     key = normalize_name (parts ! 1),
                     stratum = py_int (parts ! 2),
                     poll = py_int (parts ! 3),
                     reach = (if re_match rx_octal reach_raw \<noteq> None then py_int_octal reach_raw
                              else None),
                     reach_octal = reach_raw,
                     last_rx = py_int (parts ! 5),
                     offset_s = offset_value,
                     err_s = err_value,
                     ss_np = None, ss_nr = None, ss_span_s = None, ss_freq_ppm = None,
                     ss_fskew_ppm = None, ss_offset_s = None, ss_stddev_s = None,
                     raw = line\<rparr>))"

fun parse_data_lines :: "string list \<Rightarrow> py_error + source list" where
  "parse_data_lines [] = Inr []"
| "parse_data_lines (line # lines) =
     (case parse_source_line line of
        Inl e \<Rightarrow> Inl e
      | Inr parsed \<Rightarrow>
          (case parse_data_lines lines of
             Inl e \<Rightarrow> Inl e
           | Inr rest \<Rightarrow> Inr (case parsed of None \<Rightarrow> rest | Some src \<Rightarrow> src # rest)))"

text \<open>\<^verbatim>\<open>ln.rstrip("\n")\<close>\<close>

definition rstrip_newline :: "string \<Rightarrow> string" where
  "rstrip_newline line = rev (dropWhile (\<lambda>c. c = CHR 0x0A) (rev line))"

definition parse_sources_v :: "string \<Rightarrow> py_error + source list" where
  "parse_sources_v output =
     (if output = [] then Inr []
      else parse_data_lines (foldl keep_line [] (map rstrip_newline (splitlines output))))"

subsubsection \<open>Evaluating the parsers\<close>

lemmas tracking_defs =
  parse_tracking_def rx_system_time_def rx_labelled_def rx_spaces_def rx_number_def
  re_match_def float_group_def group_def search_float_def py_float_def decimal_magnitude_def
  py_strip_def
  py_isspace_def is_digit_def digits_val_def digit_val_def or_zero_def Let_def

lemmas sources_defs =
  parse_sources_v_def splitlines_def is_linebreak_def rstrip_newline_def keep_line_def
  startswith_def py_strip_def py_isspace_def re_match_def rx_data_line_def
  parse_source_line_def py_split_def normalize_name_def py_int_def py_int_octal_def
  is_digit_def is_octal_digit_def digits_val_def digit_val_def rx_octal_def
  search_seconds_def rx_offset_def rx_err_def rx_magnitude_def float_group_def group_def
  py_float_def decimal_magnitude_def to_seconds_def py_lower_def Let_def

lemma parse_tracking_slow:
  "parse_tracking ''System time     : 0.000123456 seconds slow of NTP time'' =
     Inr (Some \<lparr>offset = - (123456 / 10 ^ 9), rms = 0, freq = 0, skew = 0\<rparr>)"
  by (simp add: tracking_defs)

lemma parse_tracking_fast:
  "parse_tracking ''System time     : 0.000123456 seconds fast of NTP time'' =
     Inr (Some \<lparr>offset = 123456 / 10 ^ 9, rms = 0, freq = 0, skew = 0\<rparr>)"
  by (simp add: tracking_defs)

lemma parse_tracking_empty: "parse_tracking [] = Inr None"
  by (simp add: parse_tracking_def)

lemma parse_tracking_not_absent: "output \<noteq> [] \<Longrightarrow> parse_tracking output \<noteq> Inr None"
  by (simp add: parse_tracking_def split: sum.split option.split)

text \<open>
  Claim C4 holds on reports whose numbers are well formed, as the three lemmas above show
  for the examples of the specification, but \<^verbatim>\<open>parse_tracking\<close> does not return on every
  non-empty text. The class \<^verbatim>\<open>[-\d.]+\<close> admits texts that are no number, and
  \<^verbatim>\<open>float\<close> is called on them outside any \<^verbatim>\<open>try\<close>: on the report below the call ends in
  \<^verbatim>\<open>ValueError\<close>, with neither a record nor \<^verbatim>\<open>None\<close>. (The conversions of the two other
  parsers are inside \<^verbatim>\<open>try\<close>, or behind a pattern that only admits numbers.)
\<close>

theorem parse_tracking_raises:
  "parse_tracking ''System time     : 0.000.123 seconds slow of NTP time'' = Inl ValueError"
  by (simp add: tracking_defs)

subsubsection \<open>The reachability register of a parsed source\<close>

lemma split_from_tokens:
  assumes "t \<in> set (split_from cur s)" and "\<forall>c \<in> set cur. \<not> py_isspace c"
  shows "t \<noteq> [] \<and> (\<forall>c \<in> set t. \<not> py_isspace c)"
  using assms
proof (induction s arbitrary: cur)
  case Nil
  then show ?case by (auto split: if_splits)
next
  case (Cons a s)
  show ?case
  proof (cases "py_isspace a")
    case True
    then show ?thesis
      using Cons.prems Cons.IH [of "[]"] by (auto split: if_splits)
  next
    case False
    then show ?thesis
      using Cons.prems Cons.IH [of "a # cur"] by auto
  qed
qed

lemma py_split_tokens: "t \<in> set (py_split s) \<Longrightarrow> t \<noteq> [] \<and> (\<forall>c \<in> set t. \<not> py_isspace c)"
  using split_from_tokens [of t "[]" s] by (simp add: py_split_def)

lemma dropWhile_id: "(\<forall>c \<in> set t. \<not> P c) \<Longrightarrow> dropWhile P t = t"
  by (cases t) simp_all

lemma py_strip_token: "(\<forall>c \<in> set t. \<not> py_isspace c) \<Longrightarrow> py_strip t = t"
  by (simp add: py_strip_def dropWhile_id)

lemma concat_map_nonempty: "concat (map f ks) \<noteq> [] \<longleftrightarrow> (\<exists>k \<in> set ks. f k \<noteq> [])"
  by (induction ks) auto

lemma line_feed_is_space: "py_isspace (CHR 0x0A)"
  by (simp add: py_isspace_def)

lemma rx_octal_token:
  assumes "\<forall>c \<in> set t. \<not> py_isspace c"
  shows "re_match rx_octal t \<noteq> None \<longleftrightarrow> t \<noteq> [] \<and> list_all is_octal_digit t"
proof -
  define n where "n = length (takeWhile is_octal_digit t)"
  have n_le: "n \<le> length t"
    unfolding n_def by (rule length_takeWhile_le)
  have all_iff: "list_all is_octal_digit t \<longleftrightarrow> n = length t"
    unfolding n_def list_all_iff
    by (metis takeWhile_eq_all_conv length_takeWhile_le takeWhile_eq_take take_all_iff
        order_refl)
  have no_lf: "drop k t \<noteq> [CHR 0x0A]" for k
  proof
    assume "drop k t = [CHR 0x0A]"
    then have "CHR 0x0A \<in> set (drop k t)" by simp
    then have "CHR 0x0A \<in> set t" by (rule in_set_dropD)
    then show False using assms line_feed_is_space by blast
  qed
  have run: "rx_run rx_octal t [] = concat (map (\<lambda>k. rx_run Eol (drop k t) []) (rev [1..<Suc n]))"
    by (simp add: rx_octal_def n_def o_def del: rx_run.simps(3) upt_Suc)
  have "re_match rx_octal t \<noteq> None \<longleftrightarrow> rx_run rx_octal t [] \<noteq> []"
    by (simp add: re_match_def split: list.split prod.split)
  also have "\<dots> \<longleftrightarrow> (\<exists>k \<in> set (rev [1..<Suc n]). rx_run Eol (drop k t) [] \<noteq> [])"
    by (simp only: run concat_map_nonempty)
  also have "\<dots> \<longleftrightarrow> (\<exists>k \<in> set (rev [1..<Suc n]). drop k t = [])"
    by (auto simp: no_lf)
  also have "\<dots> \<longleftrightarrow> (\<exists>k. 1 \<le> k \<and> k \<le> n \<and> length t \<le> k)"
    by auto
  also have "\<dots> \<longleftrightarrow> t \<noteq> [] \<and> n = length t"
    using n_le by (cases t) auto
  finally show ?thesis by (simp add: all_iff)
qed

lemma digits_val_snoc: "digits_val b (ds @ [c]) = b * digits_val b ds + digit_val c"
  by (simp add: digits_val_def)

lemma octal_digit_val: "is_octal_digit c \<Longrightarrow> digit_val c \<le> 7"
  by (auto simp: is_octal_digit_def digit_val_def)

lemma octal_value_bound: "list_all is_octal_digit ds \<Longrightarrow> digits_val 8 ds < 8 ^ length ds"
proof (induction ds rule: rev_induct)
  case Nil
  show ?case by (simp add: digits_val_def)
next
  case (snoc c ds)
  then have "digits_val 8 ds < 8 ^ length ds" and "digit_val c \<le> 7"
    by (simp_all add: octal_digit_val)
  then show ?case by (simp add: digits_val_snoc)
qed

lemma parse_source_line_reach:
  assumes "parse_source_line line = Inr (Some r)"
  shows "reach_octal r \<in> set (py_split line)
     \<and> reach r = (if re_match rx_octal (reach_octal r) \<noteq> None then py_int_octal (reach_octal r)
                  else None)"
proof -
  have len: "\<not> length (py_split line) < 6"
    using assms by (auto simp: parse_source_line_def Let_def)
  then have "py_split line ! 4 \<in> set (py_split line)" by simp
  moreover have "reach_octal r = py_split line ! 4
      \<and> reach r = (if re_match rx_octal (py_split line ! 4) \<noteq> None
                    then py_int_octal (py_split line ! 4) else None)"
    using assms len
    by (auto simp: parse_source_line_def Let_def split: sum.splits)
  ultimately show ?thesis by simp
qed

lemma parse_data_lines_member:
  assumes "parse_data_lines lines = Inr rs" and "r \<in> set rs"
  shows "\<exists>line \<in> set lines. parse_source_line line = Inr (Some r)"
  using assms
proof (induction lines arbitrary: rs)
  case Nil
  then show ?case by simp
next
  case (Cons line lines)
  then show ?case
    by (auto split: sum.splits option.splits)
qed

lemma source_reach_value:
  assumes "parse_sources_v output = Inr recs" and "r \<in> set recs"
  shows "reach r = (if reach_octal r \<noteq> [] \<and> list_all is_octal_digit (reach_octal r)
                    then Some (int (digits_val 8 (reach_octal r))) else None)"
proof -
  obtain line where "parse_source_line line = Inr (Some r)"
    using assms parse_data_lines_member
    by (fastforce simp: parse_sources_v_def split: if_splits)
  then have tok: "reach_octal r \<in> set (py_split line)"
    and val: "reach r = (if re_match rx_octal (reach_octal r) \<noteq> None
                         then py_int_octal (reach_octal r) else None)"
    using parse_source_line_reach by blast+
  have clean: "\<forall>c \<in> set (reach_octal r). \<not> py_isspace c"
    using py_split_tokens [OF tok] by simp
  show ?thesis
    unfolding val rx_octal_token [OF clean]
    by (simp add: py_int_octal_def py_strip_token [OF clean])
qed

text \<open>
  Two sources tables: a column of three octal digits above 377, and the table of a
  selected source next to one that never answered.
\<close>

definition wide_reach_table :: string where
  "wide_reach_table = ''^* a 1 6 400 1''"

definition two_source_table :: string where
  "two_source_table =
     ''MS Name/IP address  Stratum Poll Reach LastRx Last sample'' @ [CHR 0x0A]
     @ ''=========='' @ [CHR 0x0A]
     @ ''^* ntp1>   2   6   377    34   +12us[ +15us] +/-   10ms'' @ [CHR 0x0A]
     @ ''^? ntp2    0   7     x     -     +0ns[   +0ns] +/-    0ns'' @ [CHR 0x0A]"

definition two_sources :: "source list" where
  "two_sources =
     [\<lparr>ms = ''^*'', name = ''ntp1>'', key = ''ntp1'', stratum = Some 2, poll = Some 6,
       reach = Some 255, reach_octal = ''377'', last_rx = Some 34, offset_s = Some (12 / 1000000),
       err_s = Some (10 / 1000), ss_np = None, ss_nr = None, ss_span_s = None,
       ss_freq_ppm = None, ss_fskew_ppm = None, ss_offset_s = None, ss_stddev_s = None,
       raw = ''^* ntp1>   2   6   377    34   +12us[ +15us] +/-   10ms''\<rparr>,
      \<lparr>ms = ''^?'', name = ''ntp2'', key = ''ntp2'', stratum = Some 0, poll = Some 7,
       reach = None, reach_octal = ''x'', last_rx = None, offset_s = Some 0,
       err_s = Some 0, ss_np = None, ss_nr = None, ss_span_s = None,
       ss_freq_ppm = None, ss_fskew_ppm = None, ss_offset_s = None, ss_stddev_s = None,
       raw = ''^? ntp2    0   7     x     -     +0ns[   +0ns] +/-    0ns''\<rparr>]"

lemma two_source_table_parsed: "parse_sources_v two_source_table = Inr two_sources"
  by (simp add: two_source_table_def two_sources_def sources_defs)

definition wide_reach_source :: source where
  "wide_reach_source =
     \<lparr>ms = ''^*'', name = ''a'', key = ''a'', stratum = Some 1, poll = Some 6,
      reach = Some 256, reach_octal = ''400'', last_rx = Some 1, offset_s = None,
      err_s = None, ss_np = None, ss_nr = None, ss_span_s = None, ss_freq_ppm = None,
      ss_fskew_ppm = None, ss_offset_s = None, ss_stddev_s = None,
      raw = ''^* a 1 6 400 1''\<rparr>"

text \<open>
  What the parser does with the reachability column, on the calls that return: the
  register is absent exactly when the column is not a non-empty string of octal digits,
  and is otherwise the value of the column read as an octal number, which is not negative
  and is below \<open>8 ^ n\<close> for a column of \<open>n\<close> digits. Nothing bounds it by 255.
\<close>

lemma parsed_reach_register:
  assumes "parse_sources_v output = Inr recs" and "r \<in> set recs"
  shows "(reach r = None \<longleftrightarrow> \<not> (reach_octal r \<noteq> [] \<and> list_all is_octal_digit (reach_octal r)))
     \<and> (\<forall>v. reach r = Some v \<longrightarrow>
           v = int (digits_val 8 (reach_octal r)) \<and> 0 \<le> v \<and> v < 8 ^ length (reach_octal r)
           \<and> (length (reach_octal r) \<le> 2 \<longrightarrow> v \<le> 255))"
proof -
  note reach_value = source_reach_value [OF assms]
  have bound: "int (digits_val 8 (reach_octal r)) < 8 ^ length (reach_octal r)"
    if "list_all is_octal_digit (reach_octal r)"
    using octal_value_bound [OF that] by (metis of_nat_less_iff of_nat_numeral of_nat_power)
  have small: "int (digits_val 8 (reach_octal r)) \<le> 255"
    if "list_all is_octal_digit (reach_octal r)" and "length (reach_octal r) \<le> 2"
  proof -
    have "(8::nat) ^ length (reach_octal r) \<le> 8 ^ 2"
      using that(2) by (intro power_increasing) simp_all
    then have "digits_val 8 (reach_octal r) < 64"
      using octal_value_bound [OF that(1)] by simp
    then show ?thesis by simp
  qed
  show ?thesis
    using reach_value bound small by (auto split: if_splits)
qed

text \<open>
  Claim C8 is what the code documents: the reach visualisation takes
  \<^verbatim>\<open>reach: int 0..255 representing 8-bit reach register\<close>, and the trust scorer and the
  health evaluator read the register the same way. The parser does not keep to it. It
  takes \<^verbatim>\<open>int(reach_raw, 8)\<close> of any column of octal digits and checks no range: the column
  \<^verbatim>\<open>400\<close> gives a record with the register 256, which the reach visualisation draws as
  eight hollow dots, a source never reached, while the trust scorer takes no reachability
  deduction from it.
\<close>

theorem reach_register_above_255:
  "parse_sources_v wide_reach_table = Inr [wide_reach_source]
   \<and> reach wide_reach_source = Some 256
   \<and> \<not> (256::int) \<le> 255
   \<and> reach_dots (reach wide_reach_source) True =
       [dot_hollow, dot_hollow, dot_hollow, dot_hollow, dot_hollow, dot_hollow,
        dot_hollow, dot_hollow]
   \<and> trust_reach wide_reach_source (100, []) = (100, [])"
proof -
  have "parse_sources_v wide_reach_table = Inr [wide_reach_source]"
    by (simp add: wide_reach_table_def wide_reach_source_def sources_defs)
  moreover have "reach_dots (Some 256) True =
       [dot_hollow, dot_hollow, dot_hollow, dot_hollow, dot_hollow, dot_hollow,
        dot_hollow, dot_hollow]"
    by (simp add: reach_dots_def reach_bits_def reach_bit_div_mod upt_rec)
  moreover have "trust_reach wide_reach_source (100, []) = (100, [])"
    by (simp add: trust_reach_def wide_reach_source_def)
  ultimately show ?thesis
    by (simp add: wide_reach_source_def)
qed

end
